theory Spec2Isabelle
  imports Complex_Main
begin

section \<open>Single-precision numbers\<close>

text \<open>
  The program computes with C++ \<^verbatim>\<open>float\<close>, the IEEE 754 binary32 format. A value is
  not-a-number, an infinity, or a finite number, kept here as the rational it denotes.
  The two zeros are one value: the sign of a zero shows only in a division by zero.
\<close>

datatype float = NaN | NInf | Fin rat | PInf

text \<open>The comparisons \<^verbatim>\<open><\<close> and \<^verbatim>\<open><=\<close>: false as soon as one side is not a number.\<close>

fun flt :: "float \<Rightarrow> float \<Rightarrow> bool" where
  "flt NaN b = False"
| "flt a NaN = False"
| "flt a NInf = False"
| "flt NInf b = True"
| "flt PInf b = False"
| "flt (Fin x) PInf = True"
| "flt (Fin x) (Fin y) = (x < y)"

fun fle :: "float \<Rightarrow> float \<Rightarrow> bool" where
  "fle NaN b = False"
| "fle a NaN = False"
| "fle NInf b = True"
| "fle a PInf = True"
| "fle PInf b = False"
| "fle (Fin x) NInf = False"
| "fle (Fin x) (Fin y) = (x \<le> y)"

fun fneg :: "float \<Rightarrow> float" where
  "fneg NaN = NaN"
| "fneg NInf = PInf"
| "fneg PInf = NInf"
| "fneg (Fin x) = Fin (- x)"

text \<open>
  Rounding to the nearest binary32 value, ties to the even significand. A positive
  number \<open>x\<close> lies on the grid of multiples of \<open>2 powi e\<close>, where \<open>e\<close> is the least
  exponent from -149 (the subnormal spacing) to 104 with \<open>x < 2 powi (e + 24)\<close>; it is
  rounded to the nearest multiple, and a result of \<open>2 ^ 128\<close> or more is infinite.
\<close>

definition round_even :: "rat \<Rightarrow> int" where
  "round_even y =
     (let f = \<lfloor>y\<rfloor>; r = y - of_int f
      in if r < 1 / 2 then f else if 1 / 2 < r then f + 1 else if even f then f else f + 1)"

primrec expo_from :: "nat \<Rightarrow> int \<Rightarrow> rat \<Rightarrow> int" where
  "expo_from 0 e x = e"
| "expo_from (Suc n) e x = (if x < 2 powi (e + 24) then e else expo_from n (e + 1) x)"

definition expo :: "rat \<Rightarrow> int" where
  "expo x = expo_from 253 (- 149) x"

definition fl_val :: "rat \<Rightarrow> rat" where
  "fl_val x = of_int (round_even (x / 2 powi expo x)) * 2 powi expo x"

definition fl_pos :: "rat \<Rightarrow> float" where
  "fl_pos x = (if 2 ^ 128 \<le> fl_val x then PInf else Fin (fl_val x))"

definition fl :: "rat \<Rightarrow> float" where
  "fl x = (if x < 0 then fneg (fl_pos (- x)) else fl_pos x)"

text \<open>
  Arithmetic: the exact result, rounded. \<open>sign_of\<close> is the sign of a value that is a
  number, and \<open>inf_of_sign\<close> the infinity of a sign, not-a-number for the sign 0.
\<close>

fun sign_of :: "float \<Rightarrow> int" where
  "sign_of NaN = 0"
| "sign_of NInf = - 1"
| "sign_of PInf = 1"
| "sign_of (Fin x) = (if 0 < x then 1 else if x < 0 then - 1 else 0)"

definition inf_of_sign :: "int \<Rightarrow> float" where
  "inf_of_sign s = (if 0 < s then PInf else if s < 0 then NInf else NaN)"

fun fadd :: "float \<Rightarrow> float \<Rightarrow> float" where
  "fadd NaN b = NaN"
| "fadd a NaN = NaN"
| "fadd (Fin x) (Fin y) = fl (x + y)"
| "fadd PInf NInf = NaN"
| "fadd NInf PInf = NaN"
| "fadd PInf b = PInf"
| "fadd NInf b = NInf"
| "fadd a b = b"

definition fsub :: "float \<Rightarrow> float \<Rightarrow> float" where
  "fsub a b = fadd a (fneg b)"

fun fmul :: "float \<Rightarrow> float \<Rightarrow> float" where
  "fmul NaN b = NaN"
| "fmul a NaN = NaN"
| "fmul (Fin x) (Fin y) = fl (x * y)"
| "fmul a b = inf_of_sign (sign_of a * sign_of b)"

fun fdiv :: "float \<Rightarrow> float \<Rightarrow> float" where
  "fdiv NaN b = NaN"
| "fdiv a NaN = NaN"
| "fdiv (Fin x) (Fin y) = (if y = 0 then inf_of_sign (sign_of (Fin x)) else fl (x / y))"
| "fdiv (Fin x) b = Fin 0"
| "fdiv a (Fin y) = inf_of_sign (sign_of a * (if y < 0 then - 1 else 1))"
| "fdiv a b = NaN"


text \<open>
  \<^verbatim>\<open>std::min(a, b)\<close> is \<^verbatim>\<open>(b < a) ? b : a\<close>, \<^verbatim>\<open>std::max(a, b)\<close> is
  \<^verbatim>\<open>(a < b) ? b : a\<close>, and \<^verbatim>\<open>std::clamp(v, lo, hi)\<close> is
  \<^verbatim>\<open>(v < lo) ? lo : (hi < v) ? hi : v\<close>.
\<close>

definition std_min :: "float \<Rightarrow> float \<Rightarrow> float" where
  "std_min a b = (if flt b a then b else a)"

definition std_max :: "float \<Rightarrow> float \<Rightarrow> float" where
  "std_max a b = (if flt a b then b else a)"

definition std_clamp :: "float \<Rightarrow> float \<Rightarrow> float \<Rightarrow> float" where
  "std_clamp v lo hi = (if flt v lo then lo else if flt hi v then hi else v)"

text \<open>
  What it means for \<open>r\<close> to be \<open>v\<close> clamped to the range from \<open>lo\<close> to \<open>hi\<close>: the
  nearer bound when \<open>v\<close> is outside, \<open>v\<close> itself when inside, and within the range.
\<close>

definition clamped :: "float \<Rightarrow> float \<Rightarrow> float \<Rightarrow> float \<Rightarrow> bool" where
  "clamped v lo hi r \<longleftrightarrow>
     (flt v lo \<longrightarrow> r = lo) \<and> (flt hi v \<longrightarrow> r = hi) \<and> (fle lo v \<and> fle v hi \<longrightarrow> r = v)
     \<and> fle lo r \<and> fle r hi"

section \<open>config.h\<close>

definition ANGLE_STEP :: float where "ANGLE_STEP = fl 5"
definition ZOOM_START :: float where "ZOOM_START = fl 1"
definition ZOOM_STEP :: float where "ZOOM_STEP = fl (1 / 10)"
definition ZOOM_MIN :: float where "ZOOM_MIN = fl (1 / 10)"
definition ZOOM_MAX :: float where "ZOOM_MAX = fl 5"
definition ALTITUDE_START :: float where "ALTITUDE_START = fl 0"
definition AZIMUTH_START :: float where "AZIMUTH_START = fl 0"
definition ANIMATION_STEP_ALTITUDE :: float where "ANIMATION_STEP_ALTITUDE = fl 30"
definition ANIMATION_STEP_AZIMUTH :: float where "ANIMATION_STEP_AZIMUTH = fl 30"

section \<open>utils/mathematics.h\<close>

text \<open>
  Modelled from the spec: the header \<^verbatim>\<open>utils/mathematics.h\<close> with \<^verbatim>\<open>PI\<close>,
  \<^verbatim>\<open>deg2rad\<close> and \<^verbatim>\<open>rad_norm\<close> is not among the sources. The specification
  says that angles are radians internally and degrees at the user-facing boundary, and
  that rotation results are normalized into the canonical angle range, for which it
  names the half-open interval from \<open>-\<pi>\<close> (excluded) to \<open>\<pi>\<close> (included).
  \<open>PI\<close> is the binary32 value nearest to \<open>\<pi>\<close>, which is \<open>13176795 / 2 ^ 22\<close>;
  \<open>deg2rad\<close> multiplies by it and divides by 180; \<open>rad_norm\<close> yields the
  representative of its argument modulo \<open>2 * PI\<close> in that interval, rounded, and
  not-a-number for an argument that is not finite.
\<close>

definition pi32 :: rat where
  "pi32 = 13176795 / 4194304"

definition PI :: float where
  "PI = Fin pi32"

definition deg2rad :: "float \<Rightarrow> float" where
  "deg2rad deg = fdiv (fmul deg PI) (fl 180)"

definition norm_val :: "rat \<Rightarrow> rat" where
  "norm_val x = x - 2 * pi32 * of_int \<lceil>(x - pi32) / (2 * pi32)\<rceil>"

definition rad_norm :: "float \<Rightarrow> float" where
  "rad_norm rad = (case rad of Fin x \<Rightarrow> fl (norm_val x) | _ \<Rightarrow> NaN)"

section \<open>entities/view/camera.h\<close>

record Camera =
  azimuth :: float
  altitude :: float
  zoom :: float

text \<open>The three constructors of \<^verbatim>\<open>Camera\<close>, by number of arguments.\<close>

definition Camera_0 :: Camera where
  "Camera_0 = \<lparr>azimuth = fl 0, altitude = fl 0, zoom = std_clamp (fl 1) ZOOM_MIN ZOOM_MAX\<rparr>"

definition Camera_1 :: "float \<Rightarrow> Camera" where
  "Camera_1 z = \<lparr>azimuth = fl 0, altitude = fl 0, zoom = std_clamp z ZOOM_MIN ZOOM_MAX\<rparr>"

definition Camera_3 :: "float \<Rightarrow> float \<Rightarrow> float \<Rightarrow> Camera" where
  "Camera_3 az al z =
     \<lparr>azimuth = rad_norm az,
      altitude = std_clamp al (fdiv (fneg PI) (fl 2)) (fdiv PI (fl 2)),
      zoom = std_clamp z ZOOM_MIN ZOOM_MAX\<rparr>"

text \<open>The mutators take the camera and return the updated camera.\<close>

definition rotate_left :: "float \<Rightarrow> Camera \<Rightarrow> Camera" where
  "rotate_left degree c = c\<lparr>azimuth := rad_norm (fadd (azimuth c) (deg2rad degree))\<rparr>"

definition rotate_right :: "float \<Rightarrow> Camera \<Rightarrow> Camera" where
  "rotate_right degree c = c\<lparr>azimuth := rad_norm (fsub (azimuth c) (deg2rad degree))\<rparr>"

definition rotate_up :: "float \<Rightarrow> Camera \<Rightarrow> Camera" where
  "rotate_up degree c = c\<lparr>altitude := rad_norm (fsub (altitude c) (deg2rad degree))\<rparr>"

definition rotate_down :: "float \<Rightarrow> Camera \<Rightarrow> Camera" where
  "rotate_down degree c = c\<lparr>altitude := rad_norm (fsub (altitude c) (deg2rad degree))\<rparr>"

definition zoom_in :: "float \<Rightarrow> Camera \<Rightarrow> Camera" where
  "zoom_in step c = c\<lparr>zoom := std_min (fadd (zoom c) step) ZOOM_MAX\<rparr>"

definition zoom_out :: "float \<Rightarrow> Camera \<Rightarrow> Camera" where
  "zoom_out step c = c\<lparr>zoom := std_max (fsub (zoom c) step) ZOOM_MIN\<rparr>"

section \<open>ncurses and the clock\<close>

text \<open>
  The terminal library and \<^verbatim>\<open>std::chrono\<close> are outside the repository. The calls
  the program makes are recorded as events, in program order; what the terminal
  answers is a parameter: \<^verbatim>\<open>has_colors()\<close>, \<^verbatim>\<open>can_change_color()\<close>, the value of
  \<^verbatim>\<open>COLOR_PAIRS\<close> after \<^verbatim>\<open>start_color()\<close>, the key \<^verbatim>\<open>getch()\<close> returns and the
  size \<^verbatim>\<open>getmaxyx\<close> reports. \<^verbatim>\<open>init_pair\<close> and \<^verbatim>\<open>init_color\<close> take their arguments
  as \<^verbatim>\<open>short\<close>: an event holds the values after that conversion. A \<open>Stderr\<close> event is
  one line written to \<^verbatim>\<open>std::cerr\<close>, without its newline; \<open>Loader_says\<close> is a line
  written by \<^verbatim>\<open>Object::load\<close>. A reading of the steady clock is a point in time, in
  seconds; how the library represents time points and durations is not part of the
  model, and the sum of a time point and a duration is the exact sum.
\<close>

type_synonym time_point = rat

datatype event =
    PrintHelp
  | PrintVersion
  | Stderr string
  | Loader_says string
  | InitNcurses
  | StartColor
  | UseDefaultColors
  | InitColor int int int int
  | InitPair int int int
  | Bkgd int
  | BufferClear
  | Render Camera
  | Move int int
  | BufferPrintw
  | RenderHud Camera float
  | Refresh
  | SleepUntil time_point

record Terminal =
  has_colors :: bool
  can_change_color :: bool
  COLOR_PAIRS :: int

definition COLOR_BLACK :: int where "COLOR_BLACK = 0"
definition COLOR_WHITE :: int where "COLOR_WHITE = 7"
definition KEY_DOWN :: int where "KEY_DOWN = 258"
definition KEY_UP :: int where "KEY_UP = 259"
definition KEY_LEFT :: int where "KEY_LEFT = 260"
definition KEY_RIGHT :: int where "KEY_RIGHT = 261"

section \<open>Integer conversions\<close>

text \<open>
  \<^verbatim>\<open>static_cast<size_t>\<close> of an \<^verbatim>\<open>int\<close> is the value modulo \<open>2^64\<close>;
  \<^verbatim>\<open>static_cast<unsigned int>\<close> is the value modulo \<open>2^32\<close>; \<^verbatim>\<open>static_cast<int>\<close>
  of a \<^verbatim>\<open>size_t\<close> keeps the low 32 bits, read as a signed number; a conversion of an
  \<^verbatim>\<open>int\<close> to \<^verbatim>\<open>short\<close> keeps the low 16 bits, read as a signed number.
  \<^verbatim>\<open>static_cast<short>\<close> of a \<^verbatim>\<open>float\<close> drops the fraction; C++ leaves it undefined
  for a value that is not a number or whose integer part no \<^verbatim>\<open>short\<close> holds, where
  the model yields 0 and the low 16 bits.
\<close>

definition size_t_of_int :: "int \<Rightarrow> nat" where
  "size_t_of_int v = nat (v mod 2 ^ 64)"


definition int_of_size_t :: "nat \<Rightarrow> int" where
  "int_of_size_t n = (int n + 2 ^ 31) mod 2 ^ 32 - 2 ^ 31"

definition short_of_int :: "int \<Rightarrow> int" where
  "short_of_int v = (v + 2 ^ 15) mod 2 ^ 16 - 2 ^ 15"

definition short_of_float :: "float \<Rightarrow> int" where
  "short_of_float v =
     (case v of Fin x \<Rightarrow> short_of_int (if 0 \<le> x then \<lfloor>x\<rfloor> else \<lceil>x\<rceil>) | _ \<Rightarrow> 0)"

section \<open>main.cpp: colors\<close>

datatype Theme = Dark | Light | Transparent

text \<open>
  Of a mesh only the material list matters below. The vector components \<^verbatim>\<open>x\<close>,
  \<^verbatim>\<open>y\<close>, \<^verbatim>\<open>z\<close> are \<open>vec_x\<close>, \<open>vec_y\<close>, \<open>vec_z\<close>.
\<close>

datatype Vec3 = Vec3 (vec_x: float) (vec_y: float) (vec_z: float)

record Material =
  diffuse :: Vec3

record Object =
  materials :: "Material list"

definition BG_DEFAULT :: int where "BG_DEFAULT = - 1"

definition theme_bg :: "Theme \<Rightarrow> int" where
  "theme_bg th = (case th of Dark \<Rightarrow> COLOR_BLACK | Light \<Rightarrow> COLOR_WHITE | Transparent \<Rightarrow> BG_DEFAULT)"

definition theme_hud :: "Theme \<Rightarrow> int" where
  "theme_hud th = (case th of Dark \<Rightarrow> COLOR_WHITE | Light \<Rightarrow> COLOR_BLACK | Transparent \<Rightarrow> COLOR_WHITE)"

definition channel :: "float \<Rightarrow> int" where
  "channel v = short_of_float (fmul (std_clamp v (fl 0) (fl 1)) (fl 1000))"

text \<open>The loop \<^verbatim>\<open>for (size_t i = 0; i < limit; i++)\<close> of \<^verbatim>\<open>init_colors\<close>, from \<open>i\<close> on.\<close>

function init_material_pairs :: "bool \<Rightarrow> Material list \<Rightarrow> int \<Rightarrow> nat \<Rightarrow> nat \<Rightarrow> event list" where
  "init_material_pairs ccc mats bg limit i =
     (if i < limit then
        (let pair = int_of_size_t i + 1;
             d = diffuse (mats ! i)
         in (if ccc
             then [InitColor (short_of_int pair)
                     (channel (vec_x d)) (channel (vec_y d)) (channel (vec_z d))]
             else [])
            @ [InitPair (short_of_int pair) (short_of_int pair) bg]
            @ init_material_pairs ccc mats bg limit (Suc i))
      else [])"
  by pat_completeness auto
termination
  by (relation "measure (\<lambda>(ccc, mats, bg, limit, i). limit - i)") auto

declare init_material_pairs.simps [simp del]

text \<open>
  \<^verbatim>\<open>init_colors\<close> returns the calls it makes and the value of the global
  \<^verbatim>\<open>g_hud_pair\<close> afterwards (it is 0 before).
\<close>

definition init_colors :: "Terminal \<Rightarrow> Material list \<Rightarrow> Theme \<Rightarrow> event list \<times> int" where
  "init_colors t mats th =
     (if \<not> has_colors t \<or> \<not> can_change_color t then ([], 0)
      else
        (let bg = theme_bg th;
             hud = theme_hud th;
             limit = min (length mats) (size_t_of_int (COLOR_PAIRS t - 2));
             g_hud_pair = int_of_size_t limit + 1
         in ([StartColor]
             @ (if bg = BG_DEFAULT then [UseDefaultColors] else [])
             @ init_material_pairs (can_change_color t) mats bg limit 0
             @ (if g_hud_pair < COLOR_PAIRS t
                then [InitPair (short_of_int g_hud_pair) hud bg] else [])
             @ [Bkgd g_hud_pair],
             g_hud_pair)))"

text \<open>
  The calls of \<^verbatim>\<open>init_pair\<close> in a run of calls, in order: pair index, foreground and
  background.
\<close>

fun registered_pairs :: "event list \<Rightarrow> (int \<times> int \<times> int) list" where
  "registered_pairs [] = []"
| "registered_pairs (InitPair p f b # es) = (p, f, b) # registered_pairs es"
| "registered_pairs (e # es) = registered_pairs es"

section \<open>main.cpp: command line\<close>

text \<open>
  The fields \<^verbatim>\<open>zoom\<close>, \<^verbatim>\<open>altitude\<close> and \<^verbatim>\<open>azimuth\<close> of \<^verbatim>\<open>Args\<close> are
  \<open>args_zoom\<close>, \<open>args_altitude\<close> and \<open>args_azimuth\<close> here; the camera has fields of
  the same names.
\<close>

record Args =
  input_file :: string
  color_support :: bool
  theme :: Theme
  static_light :: bool
  flip_faces :: bool
  invert_x :: bool
  invert_y :: bool
  invert_z :: bool
  animate_altitude :: bool
  animate_azimuth :: bool
  speed_altitude :: float
  speed_azimuth :: float
  args_zoom :: float
  args_altitude :: float
  args_azimuth :: float

definition Args_default :: Args where
  "Args_default =
     \<lparr>input_file = [], color_support = False, theme = Dark, static_light = False,
      flip_faces = False, invert_x = False, invert_y = False, invert_z = False,
      animate_altitude = False, animate_azimuth = False,
      speed_altitude = ANIMATION_STEP_ALTITUDE, speed_azimuth = ANIMATION_STEP_AZIMUTH,
      args_zoom = ZOOM_START, args_altitude = ALTITUDE_START, args_azimuth = AZIMUTH_START\<rparr>"

text \<open>
  \<^verbatim>\<open>s[0] == '-'\<close> on a C string or a string view of one; for the empty string the
  character read is the terminating NUL.
\<close>

definition dash :: "string \<Rightarrow> bool" where
  "dash s = (case s of [] \<Rightarrow> False | c # cs \<Rightarrow> c = CHR ''-'')"

definition usage_hint :: string where
  "usage_hint = ''type '' @ [CHR 0x27] @ ''--help'' @ [CHR 0x27] @ '' for usage''"

text \<open>
  One pass through the body of the \<^verbatim>\<open>for\<close> loop of \<^verbatim>\<open>parse_args\<close>, at
  argument \<open>arg\<close> with the arguments \<open>rest\<close> after it: either the process exits
  (\<open>Stop\<close>, with what was printed and the status), or the loop goes on with the updated
  \<^verbatim>\<open>Args\<close> after skipping the given number of further arguments (the \<^verbatim>\<open>++i\<close> of
  the body). \<^verbatim>\<open>safe_stof\<close> (from \<^verbatim>\<open>utils/tools.h\<close>, not among the sources) is the
  parameter \<open>sf\<close>: it yields a number or nothing.
\<close>

datatype step = Stop "event list" int | Continue Args nat

definition numeric_option ::
  "(string \<Rightarrow> float option) \<Rightarrow> string \<Rightarrow> string list \<Rightarrow> (float \<Rightarrow> Args) \<Rightarrow> step" where
  "numeric_option sf name rest store =
     (case rest of
        [] \<Rightarrow> Stop [Stderr (''error: '' @ name @ '' needs value'')] 1
      | v # vs \<Rightarrow>
          (case sf v of
             None \<Rightarrow> Stop [Stderr (''error: invalid '' @ name @ '' value'')] 1
           | Some val \<Rightarrow> Continue (store val) 1))"

definition parse_step :: "(string \<Rightarrow> float option) \<Rightarrow> Args \<Rightarrow> string \<Rightarrow> string list \<Rightarrow> step" where
  "parse_step sf a arg rest =
     (if arg = ''-h'' \<or> arg = ''--help'' then Stop [PrintHelp] 0
      else if arg = ''-v'' \<or> arg = ''--version'' then Stop [PrintVersion] 0
      else if arg = ''-c'' \<or> arg = ''--color'' then
        (if rest \<noteq> [] \<and> \<not> dash (hd rest) then
           (if hd rest = ''dark'' then Continue (a\<lparr>color_support := True, theme := Dark\<rparr>) 1
            else if hd rest = ''light'' then Continue (a\<lparr>color_support := True, theme := Light\<rparr>) 1
            else if hd rest = ''transparent''
              then Continue (a\<lparr>color_support := True, theme := Transparent\<rparr>) 1
            else Continue (a\<lparr>color_support := True\<rparr>) 0)
         else Continue (a\<lparr>color_support := True\<rparr>) 0)
      else if arg = ''-l'' \<or> arg = ''--light'' then Continue (a\<lparr>static_light := True\<rparr>) 0
      else if arg = ''-az'' then
        (if rest \<noteq> [] \<and> \<not> dash (hd rest) then
           (case sf (hd rest) of
              Some val \<Rightarrow> Continue (a\<lparr>animate_azimuth := True, speed_azimuth := val\<rparr>) 1
            | None \<Rightarrow> Continue (a\<lparr>animate_azimuth := True\<rparr>) 0)
         else Continue (a\<lparr>animate_azimuth := True\<rparr>) 0)
      else if arg = ''-al'' then
        (if rest \<noteq> [] \<and> \<not> dash (hd rest) then
           (case sf (hd rest) of
              Some val \<Rightarrow> Continue (a\<lparr>animate_altitude := True, speed_altitude := val\<rparr>) 1
            | None \<Rightarrow> Continue (a\<lparr>animate_altitude := True\<rparr>) 0)
         else Continue (a\<lparr>animate_altitude := True\<rparr>) 0)
      else if arg = ''-z'' \<or> arg = ''--zoom'' then
        numeric_option sf ''zoom'' rest (\<lambda>val. a\<lparr>args_zoom := val\<rparr>)
      else if arg = ''--altitude'' then
        numeric_option sf ''altitude'' rest (\<lambda>val. a\<lparr>args_altitude := val\<rparr>)
      else if arg = ''--azimuth'' then
        numeric_option sf ''azimuth'' rest (\<lambda>val. a\<lparr>args_azimuth := val\<rparr>)
      else if arg = ''--flip'' then Continue (a\<lparr>flip_faces := True\<rparr>) 0
      else if arg = ''--invert-x'' then Continue (a\<lparr>invert_x := True\<rparr>) 0
      else if arg = ''--invert-y'' then Continue (a\<lparr>invert_y := True\<rparr>) 0
      else if arg = ''--invert-z'' then Continue (a\<lparr>invert_z := True\<rparr>) 0
      else if \<not> dash arg then
        (if input_file a \<noteq> [] then Stop [Stderr ''error: more arguments than expected''] 1
         else Continue (a\<lparr>input_file := arg\<rparr>) 0)
      else Stop [Stderr (''unknown option: '' @ arg), Stderr usage_hint] 1)"

datatype 'a outcome = Exit "event list" int | Return 'a

text \<open>The \<^verbatim>\<open>for\<close> loop of \<^verbatim>\<open>parse_args\<close> over the arguments still to be read.\<close>

function parse_loop :: "(string \<Rightarrow> float option) \<Rightarrow> Args \<Rightarrow> string list \<Rightarrow> Args outcome" where
  "parse_loop sf a [] = Return a"
| "parse_loop sf a (arg # rest) =
     (case parse_step sf a arg rest of
        Stop out status \<Rightarrow> Exit out status
      | Continue a' n \<Rightarrow> parse_loop sf a' (drop n rest))"
  by pat_completeness auto
termination
  by (relation "measure (\<lambda>(sf, a, args). length args)") auto

text \<open>\<^verbatim>\<open>parse_args(argc, argv)\<close>: \<open>argv\<close> is the whole vector, program name first.\<close>

definition parse_args :: "(string \<Rightarrow> float option) \<Rightarrow> string list \<Rightarrow> Args outcome" where
  "parse_args sf argv =
     (case parse_loop sf Args_default (tl argv) of
        Exit out status \<Rightarrow> Exit out status
      | Return a \<Rightarrow>
          (if input_file a = []
           then Exit [Stderr ''error: no input file'', Stderr usage_hint] 1
           else Return a))"

text \<open>
  The states of the loop: \<open>scan_reaches sf s s'\<close> holds when the loop, started with
  \<^verbatim>\<open>Args\<close> and remaining arguments \<open>s\<close>, comes to the head of the loop with \<open>s'\<close>.
\<close>

inductive scan_reaches ::
  "(string \<Rightarrow> float option) \<Rightarrow> Args \<times> string list \<Rightarrow> Args \<times> string list \<Rightarrow> bool" where
  here: "scan_reaches sf s s"
| step: "parse_step sf a arg rest = Continue a' n \<Longrightarrow> scan_reaches sf (a', drop n rest) s'
         \<Longrightarrow> scan_reaches sf (a, arg # rest) s'"

section \<open>main.cpp: keys and start-up\<close>

definition key :: "char \<Rightarrow> int" where
  "key c = int (of_char c)"

definition handle_control :: "int \<Rightarrow> Camera \<Rightarrow> Camera" where
  "handle_control ch cam =
     (if ch \<in> {KEY_LEFT, key CHR ''h'', key CHR ''H'', key CHR ''a'', key CHR ''A''}
        then rotate_left ANGLE_STEP cam
      else if ch \<in> {KEY_RIGHT, key CHR ''l'', key CHR ''L'', key CHR ''d'', key CHR ''D''}
        then rotate_right ANGLE_STEP cam
      else if ch \<in> {KEY_UP, key CHR ''k'', key CHR ''K'', key CHR ''w'', key CHR ''W''}
        then rotate_up ANGLE_STEP cam
      else if ch \<in> {KEY_DOWN, key CHR ''j'', key CHR ''J'', key CHR ''s'', key CHR ''S''}
        then rotate_down ANGLE_STEP cam
      else if ch \<in> {key CHR ''+'', key CHR ''='', key CHR ''i'', key CHR ''I''}
        then zoom_in ZOOM_STEP cam
      else if ch \<in> {key CHR ''-'', key CHR ''o'', key CHR ''O''}
        then zoom_out ZOOM_STEP cam
      else cam)"

text \<open>
  The camera as \<^verbatim>\<open>main\<close> sets it up before the render loop: the one-argument
  constructor, then the two assignments to the fields.
\<close>

definition initial_camera :: "Args \<Rightarrow> Camera" where
  "initial_camera args =
     (Camera_1 (args_zoom args))
       \<lparr>altitude := deg2rad (args_altitude args), azimuth := deg2rad (args_azimuth args)\<rparr>"

text \<open>
  \<^verbatim>\<open>main\<close> up to the head of the render loop. \<^verbatim>\<open>Object::load\<close> is the parameter
  \<open>load\<close>: given the path and the color flag it yields the lines it prints and the
  mesh, or no mesh when it fails. The geometric transforms of the mesh between loading
  and \<^verbatim>\<open>init_ncurses\<close> print nothing and are left out. The result is either the exit
  of the process, with everything printed and the status, or the entry into the render
  loop, with the calls made so far and the camera.
\<close>

datatype run = Exited "event list" int | Render_loop "event list" Camera

definition main ::
  "(string \<Rightarrow> float option) \<Rightarrow> (string \<Rightarrow> bool \<Rightarrow> string list \<times> Object option) \<Rightarrow> Terminal
     \<Rightarrow> string list \<Rightarrow> run" where
  "main sf load t argv =
     (case parse_args sf argv of
        Exit out status \<Rightarrow> Exited out status
      | Return args \<Rightarrow>
          (case load (input_file args) (color_support args) of
             (said, None) \<Rightarrow> Exited (map Loader_says said) 1
           | (said, Some obj) \<Rightarrow>
               Render_loop
                 (map Loader_says said @ [InitNcurses]
                  @ (if color_support args
                     then fst (init_colors t (materials obj) (theme args)) else []))
                 (initial_camera args)))"













text \<open>The option strings that \<^verbatim>\<open>parse_args\<close> compares an argument with.\<close>

definition known_option :: "string \<Rightarrow> bool" where
  "known_option arg \<longleftrightarrow>
     arg \<in> {''-h'', ''--help'', ''-v'', ''--version'', ''-c'', ''--color'', ''-l'', ''--light'',
            ''-az'', ''-al'', ''-z'', ''--zoom'', ''--altitude'', ''--azimuth'', ''--flip'',
            ''--invert-x'', ''--invert-y'', ''--invert-z''}"

section \<open>Example collaborators\<close>

text \<open>
  Concrete stand-ins for the parts outside the sources, used only in the closed
  examples: a number parser that knows a few literals and rejects everything else, a
  loader that succeeds with a mesh of one material, a loader that fails, terminals
  with 256, 4, 1 and 65536 color pairs, and a material.
\<close>

definition stof_sample :: "string \<Rightarrow> float option" where
  "stof_sample s =
     (if s = ''2'' then Some (fl 2) else if s = ''180'' then Some (fl 180)
      else if s = ''720'' then Some (fl 720) else None)"

definition load_sample :: "string \<Rightarrow> bool \<Rightarrow> string list \<times> Object option" where
  "load_sample path color = ([], Some \<lparr>materials = [\<lparr>diffuse = Vec3 (fl 1) (fl 0) (fl 0)\<rparr>]\<rparr>)"

definition load_failing :: "string \<Rightarrow> bool \<Rightarrow> string list \<times> Object option" where
  "load_failing path color = ([''error: cannot open file''], None)"

definition term_sample :: Terminal where
  "term_sample = \<lparr>has_colors = True, can_change_color = True, COLOR_PAIRS = 256\<rparr>"

definition term_small :: Terminal where
  "term_small = \<lparr>has_colors = True, can_change_color = True, COLOR_PAIRS = 4\<rparr>"

definition term_one :: Terminal where
  "term_one = \<lparr>has_colors = True, can_change_color = True, COLOR_PAIRS = 1\<rparr>"

definition term_wide :: Terminal where
  "term_wide = \<lparr>has_colors = True, can_change_color = True, COLOR_PAIRS = 65536\<rparr>"

definition red :: Material where
  "red = \<lparr>diffuse = Vec3 (fl 1) (fl 0) (fl 0)\<rparr>"

section \<open>Properties of rounding\<close>

lemma round_even_of_int: "round_even (of_int n) = n"
  by (simp add: round_even_def)

lemma round_even_floor: "\<lfloor>y\<rfloor> \<le> round_even y \<and> round_even y \<le> \<lfloor>y\<rfloor> + 1"
  by (simp add: round_even_def Let_def)

lemma round_even_mono: "x \<le> y \<Longrightarrow> round_even x \<le> round_even y"
proof -
  assume xy: "x \<le> y"
  then have f: "\<lfloor>x\<rfloor> \<le> \<lfloor>y\<rfloor>" by (rule floor_mono)
  show ?thesis
  proof (cases "\<lfloor>x\<rfloor> = \<lfloor>y\<rfloor>")
    case True
    then have "x - of_int \<lfloor>x\<rfloor> \<le> y - of_int \<lfloor>y\<rfloor>" using xy by simp
    then show ?thesis
      using True by (auto simp: round_even_def Let_def)
  next
    case False
    then have "\<lfloor>x\<rfloor> + 1 \<le> \<lfloor>y\<rfloor>" using f by simp
    then show ?thesis
      using round_even_floor [of x] round_even_floor [of y] by linarith
  qed
qed

lemma round_even_lower: "of_int n \<le> y \<Longrightarrow> n \<le> round_even y"
  using round_even_mono [of "of_int n" y] by (simp add: round_even_of_int)

lemma round_even_upper: "y \<le> of_int n \<Longrightarrow> round_even y \<le> n"
  using round_even_mono [of y "of_int n"] by (simp add: round_even_of_int)

lemma expo_from_lower: "e \<le> expo_from n e x"
proof (induction n arbitrary: e)
  case 0
  show ?case by simp
next
  case (Suc n)
  show ?case using Suc [of "e + 1"] by simp
qed

lemma expo_from_upper: "expo_from n e x \<le> e + int n"
proof (induction n arbitrary: e)
  case 0
  show ?case by simp
next
  case (Suc n)
  show ?case using Suc [of "e + 1"] by simp
qed

lemma expo_from_bound: "expo_from n e x < e + int n \<Longrightarrow> x < 2 powi (expo_from n e x + 24)"
proof (induction n arbitrary: e)
  case 0
  then show ?case by simp
next
  case (Suc n)
  show ?case
  proof (cases "x < 2 powi (e + 24)")
    case True
    then show ?thesis by simp
  next
    case False
    then show ?thesis using Suc.IH [of "e + 1"] Suc.prems by simp
  qed
qed

lemma expo_from_prev: "e < expo_from n e x \<Longrightarrow> 2 powi (expo_from n e x + 23) \<le> x"
proof (induction n arbitrary: e)
  case 0
  then show ?case by simp
next
  case (Suc n)
  show ?case
  proof (cases "x < 2 powi (e + 24)")
    case True
    then show ?thesis using Suc.prems by simp
  next
    case False
    show ?thesis
    proof (cases "e + 1 < expo_from n (e + 1) x")
      case True
      then show ?thesis using Suc.IH [of "e + 1"] False by simp
    next
      case eq: False
      then have "expo_from n (e + 1) x = e + 1"
        using expo_from_lower [of "e + 1" n x] by simp
      then show ?thesis using False by (simp add: add.commute)
    qed
  qed
qed

lemma expo_from_mono: "x \<le> y \<Longrightarrow> expo_from n e x \<le> expo_from n e y"
proof (induction n arbitrary: e)
  case 0
  show ?case by simp
next
  case (Suc n)
  show ?case
  proof (cases "x < 2 powi (e + 24)")
    case True
    then show ?thesis using expo_from_lower [of e "Suc n" y] by simp
  next
    case False
    then have "\<not> y < 2 powi (e + 24)" using Suc.prems by simp
    then show ?thesis using False Suc.IH [OF Suc.prems, of "e + 1"] by simp
  qed
qed

lemma expo_range: "- 149 \<le> expo x \<and> expo x \<le> 104"
  using expo_from_lower [of "- 149" 253 x] expo_from_upper [of 253 "- 149" x]
  by (simp add: expo_def)

lemma expo_bound: "expo x < 104 \<Longrightarrow> x < 2 powi (expo x + 24)"
  using expo_from_bound [of 253 "- 149" x] by (simp add: expo_def)

lemma expo_prev: "- 149 < expo x \<Longrightarrow> 2 powi (expo x + 23) \<le> x"
  using expo_from_prev [of "- 149" 253 x] by (simp add: expo_def)

lemma expo_mono: "x \<le> y \<Longrightarrow> expo x \<le> expo y"
  by (simp add: expo_def expo_from_mono)

lemma fl_val_mono:
  assumes "x \<le> y"
  shows "fl_val x \<le> fl_val y"
proof (cases "expo x = expo y")
  case True
  have p: "(0::rat) < 2 powi expo y" by simp
  have "x / 2 powi expo y \<le> y / 2 powi expo y"
    using assms p by (simp add: divide_right_mono)
  then have "round_even (x / 2 powi expo y) \<le> round_even (y / 2 powi expo y)"
    by (rule round_even_mono)
  then have "(of_int (round_even (x / 2 powi expo y)) :: rat) \<le> of_int (round_even (y / 2 powi expo y))"
    by simp
  then show ?thesis
    unfolding fl_val_def True using p by (simp add: mult_right_mono)
next
  case False
  then have lt: "expo x < expo y" using expo_mono [OF assms] by simp
  have px: "(0::rat) < 2 powi expo x" and py: "(0::rat) < 2 powi expo y" by simp_all
  have "expo x < 104" using lt expo_range [of y] by simp
  then have "x < 2 powi (expo x + 24)" by (rule expo_bound)
  also have "\<dots> = 2 ^ 24 * 2 powi expo x"
    by (simp add: power_int_add)
  finally have "x / 2 powi expo x \<le> of_int (2 ^ 24)"
    using px by (simp add: pos_divide_le_eq)
  then have "round_even (x / 2 powi expo x) \<le> 2 ^ 24" by (rule round_even_upper)
  then have "(of_int (round_even (x / 2 powi expo x)) :: rat) \<le> 2 ^ 24"
    by (metis of_int_le_iff of_int_numeral of_int_power)
  then have "fl_val x \<le> 2 ^ 24 * 2 powi expo x"
    unfolding fl_val_def using px by (simp add: mult_right_mono)
  also have "\<dots> = 2 powi (expo x + 24)" by (simp add: power_int_add)
  also have "\<dots> \<le> 2 powi (expo y + 23)"
    using lt by (intro power_int_increasing) simp_all
  finally have a: "fl_val x \<le> 2 powi (expo y + 23)" .
  have "- 149 < expo y" using lt expo_range [of x] by simp
  then have "2 powi (expo y + 23) \<le> y" by (rule expo_prev)
  moreover have "(2::rat) powi (expo y + 23) = 2 ^ 23 * 2 powi expo y"
    by (simp add: power_int_add)
  ultimately have "of_int (2 ^ 23) \<le> y / 2 powi expo y"
    using py by (simp add: pos_le_divide_eq)
  then have "2 ^ 23 \<le> round_even (y / 2 powi expo y)" by (rule round_even_lower)
  then have "(2 ^ 23 :: rat) \<le> of_int (round_even (y / 2 powi expo y))"
    by (metis of_int_le_iff of_int_numeral of_int_power)
  then have "2 ^ 23 * 2 powi expo y \<le> fl_val y"
    unfolding fl_val_def using py by (simp add: mult_right_mono)
  then have "2 powi (expo y + 23) \<le> fl_val y" by (simp add: power_int_add)
  with a show ?thesis by simp
qed

lemma fl_val_nonneg: "0 \<le> x \<Longrightarrow> 0 \<le> fl_val x"
proof -
  assume "0 \<le> x"
  then have "of_int 0 \<le> x / 2 powi expo x" by simp
  then have "0 \<le> round_even (x / 2 powi expo x)" by (rule round_even_lower)
  then show ?thesis by (simp add: fl_val_def)
qed

lemma fl_pos_mono: "x \<le> y \<Longrightarrow> fle (fl_pos x) (fl_pos y)"
  using fl_val_mono [of x y] by (auto simp: fl_pos_def)

lemma fl_pos_nonneg: "0 \<le> x \<Longrightarrow> fle (Fin 0) (fl_pos x)"
  using fl_val_nonneg [of x] by (auto simp: fl_pos_def)

lemma fle_fneg: "fle (fneg a) (fneg b) = fle b a"
  by (cases a; cases b) simp_all

lemma fle_trans: "fle a b \<Longrightarrow> fle b c \<Longrightarrow> fle a c"
  by (cases a; cases b; cases c) simp_all

lemma fle_fneg_zero: "fle (Fin 0) a \<Longrightarrow> fle (fneg a) (Fin 0)"
  by (cases a) simp_all

lemma fl_mono: "x \<le> y \<Longrightarrow> fle (fl x) (fl y)"
proof -
  assume xy: "x \<le> y"
  consider "0 \<le> x" | "x < 0" "0 \<le> y" | "y < 0" by linarith
  then show ?thesis
  proof cases
    case 1
    then show ?thesis using xy by (simp add: fl_def fl_pos_mono)
  next
    case 2
    have "fle (fneg (fl_pos (- x))) (Fin 0)"
      using 2 by (intro fle_fneg_zero fl_pos_nonneg) simp
    moreover have "fle (Fin 0) (fl_pos y)" using 2 by (intro fl_pos_nonneg)
    ultimately show ?thesis using 2 by (simp add: fl_def) (rule fle_trans)
  next
    case 3
    then have "fle (fl_pos (- y)) (fl_pos (- x))" using xy by (intro fl_pos_mono) simp
    then show ?thesis using 3 xy by (simp add: fl_def fle_fneg)
  qed
qed

lemma expo_from_least:
  "e \<le> e' \<Longrightarrow> x < 2 powi (e' + 24) \<Longrightarrow> expo_from n e x \<le> e'"
proof (induction n arbitrary: e)
  case 0
  then show ?case by simp
next
  case (Suc n)
  show ?case
  proof (cases "x < 2 powi (e + 24)")
    case True
    then show ?thesis using Suc.prems by simp
  next
    case False
    then have "e \<noteq> e'" using Suc.prems by auto
    then have "e + 1 \<le> e'" using Suc.prems by simp
    then show ?thesis using False Suc.IH [of "e + 1"] Suc.prems by simp
  qed
qed

lemma expo_eqI:
  assumes "- 149 \<le> e" and "e \<le> 104" and "x < 2 powi (e + 24)"
    and "e = - 149 \<or> 2 powi (e + 23) \<le> x"
  shows "expo x = e"
proof -
  have le: "expo x \<le> e"
    using assms(1,3) by (simp add: expo_def expo_from_least)
  have "\<not> expo x < e"
  proof
    assume lt: "expo x < e"
    then have "e \<noteq> - 149" using expo_range [of x] by simp
    then have lo: "2 powi (e + 23) \<le> x" using assms(4) by simp
    have "expo x < 104" using lt assms(2) by simp
    then have "x < 2 powi (expo x + 24)" by (rule expo_bound)
    also have "\<dots> \<le> 2 powi (e + 23)"
      using lt by (intro power_int_increasing) simp_all
    finally show False using lo by simp
  qed
  with le show ?thesis by simp
qed

lemma round_even_eqI:
  assumes "\<bar>y - of_int m\<bar> < 1 / 2 \<or> (\<bar>y - of_int m\<bar> = 1 / 2 \<and> even m)"
  shows "round_even y = m"
proof -
  from assms consider "\<bar>y - of_int m\<bar> < 1 / 2" | "y - of_int m = 1 / 2" "even m"
    | "of_int m - y = 1 / 2" "even m"
    by (auto simp: abs_if split: if_splits)
  then show ?thesis
  proof cases
    case 1
    then have a: "of_int m - 1 / 2 < y" and b: "y < of_int m + 1 / 2" by (auto simp: abs_if split: if_splits)
    show ?thesis
    proof (cases "of_int m \<le> y")
      case True
      then have "\<lfloor>y\<rfloor> = m" using b by (intro floor_unique) simp_all
      then show ?thesis using b by (simp add: round_even_def Let_def)
    next
      case False
      then have "\<lfloor>y\<rfloor> = m - 1" using a by (intro floor_unique) simp_all
      then show ?thesis using a False by (simp add: round_even_def Let_def)
    qed
  next
    case 2
    then have "\<lfloor>y\<rfloor> = m" by (intro floor_unique) simp_all
    then show ?thesis using 2 by (simp add: round_even_def Let_def)
  next
    case 3
    then have "\<lfloor>y\<rfloor> = m - 1" by (intro floor_unique) simp_all
    then show ?thesis using 3 by (simp add: round_even_def Let_def)
  qed
qed

text \<open>
  Rounding a given number: with the exponent \<open>e\<close> and the significand \<open>m\<close> named, the
  conditions are plain arithmetic.
\<close>

lemma fl_eqI:
  assumes "0 \<le> x" and "- 149 \<le> e" and "e \<le> 104" and "x < 2 powi (e + 24)"
    and "e = - 149 \<or> 2 powi (e + 23) \<le> x"
    and "\<bar>x / 2 powi e - of_int m\<bar> < 1 / 2 \<or> (\<bar>x / 2 powi e - of_int m\<bar> = 1 / 2 \<and> even m)"
    and "of_int m * 2 powi e < (2 ^ 128 :: rat)"
  shows "fl x = Fin (of_int m * 2 powi e)"
proof -
  have e: "expo x = e" using assms(2-5) by (rule expo_eqI)
  have "round_even (x / 2 powi e) = m" using assms(6) by (rule round_even_eqI)
  then have "fl_val x = of_int m * 2 powi e" by (simp add: fl_val_def e)
  then show ?thesis using assms(1,7) by (simp add: fl_def fl_pos_def)
qed

lemma fneg_fneg: "fneg (fneg a) = a"
  by (cases a) simp_all

lemma fl_zero: "fl 0 = Fin 0"
  using fl_eqI [of 0 "- 149" 0] by simp

lemma fl_minus: "fl (- x) = fneg (fl x)"
proof -
  consider "x < 0" | "x = 0" | "0 < x" by linarith
  then show ?thesis
  proof cases
    case 1
    then show ?thesis by (simp add: fl_def fneg_fneg)
  next
    case 2
    then show ?thesis by (simp add: fl_zero)
  next
    case 3
    then show ?thesis by (simp add: fl_def)
  qed
qed

lemma fl_exact_nonneg:
  assumes "0 \<le> m" and "m < 2 ^ 24" and "- 149 \<le> e" and "e \<le> 104"
  shows "fl (of_int m * 2 powi e) = Fin (of_int m * 2 powi e)"
proof -
  define x :: rat where "x = of_int m * 2 powi e"
  have x0: "0 \<le> x" using assms(1) by (simp add: x_def)
  have "(of_int m :: rat) < 2 ^ 24"
    using assms(2) by (metis of_int_less_iff of_int_numeral of_int_power)
  then have "x < 2 ^ 24 * 2 powi e"
    unfolding x_def by (intro mult_strict_right_mono) simp_all
  then have xb: "x < 2 powi (e + 24)" by (simp add: power_int_add)
  have le: "expo x \<le> e"
    using assms(3) xb by (simp add: expo_def expo_from_least)
  define E where "E = expo x"
  define k where "k = nat (e - E)"
  have "(2::rat) powi e = 2 powi (e - E) * 2 powi E"
    by (simp flip: power_int_add)
  also have "(2::rat) powi (e - E) = 2 ^ k"
    using le by (simp add: power_int_def k_def E_def)
  finally have pw: "(2::rat) powi e = 2 ^ k * 2 powi E" .
  have "x / 2 powi E = of_int (m * 2 ^ k)"
    by (simp add: x_def pw)
  then have "round_even (x / 2 powi E) = m * 2 ^ k"
    by (simp only: round_even_of_int)
  then have "fl_val x = of_int (m * 2 ^ k) * 2 powi E"
    by (simp add: fl_val_def E_def)
  also have "\<dots> = x" by (simp add: x_def pw)
  finally have v: "fl_val x = x" .
  have "x < 2 powi (e + 24)" by (rule xb)
  also have "\<dots> \<le> 2 powi 128"
    using assms(4) by (intro power_int_increasing) simp_all
  finally have "x < 2 ^ 128" by simp
  then show ?thesis using x0 v unfolding x_def by (simp add: fl_def fl_pos_def)
qed

lemma fl_exact:
  assumes "\<bar>m\<bar> < 2 ^ 24" and "- 149 \<le> e" and "e \<le> 104"
  shows "fl (of_int m * 2 powi e) = Fin (of_int m * 2 powi e)"
proof (cases "0 \<le> m")
  case True
  then show ?thesis using assms by (intro fl_exact_nonneg) simp_all
next
  case False
  then have "fl (of_int (- m) * 2 powi e) = Fin (of_int (- m) * 2 powi e)"
    using assms by (intro fl_exact_nonneg) simp_all
  then have "fneg (fl (of_int m * 2 powi e)) = Fin (- (of_int m * 2 powi e))"
    using fl_minus [of "of_int m * 2 powi e"] by simp
  then have "fneg (fneg (fl (of_int m * 2 powi e))) = fneg (Fin (- (of_int m * 2 powi e)))"
    by simp
  then show ?thesis by (simp add: fneg_fneg)
qed

text \<open>The constants of the program are binary32 values.\<close>

lemma fl_small:
  "fl 1 = Fin 1" "fl 2 = Fin 2" "fl 5 = Fin 5" "fl 30 = Fin 30" "fl 60 = Fin 60"
  "fl 100 = Fin 100" "fl 180 = Fin 180" "fl 720 = Fin 720" "fl 1000 = Fin 1000"
  using fl_exact [of 1 0] fl_exact [of 2 0] fl_exact [of 5 0] fl_exact [of 30 0]
    fl_exact [of 60 0] fl_exact [of 100 0] fl_exact [of 180 0] fl_exact [of 720 0]
    fl_exact [of 1000 0]
  by simp_all

lemma fl_tenth: "fl (1 / 10) = Fin (13421773 / 134217728)"
  using fl_eqI [of "1 / 10" "- 27" 13421773] by simp

lemma fl_tenth_again: "fl (13421773 / 134217728) = Fin (13421773 / 134217728)"
  using fl_exact [of 13421773 "- 27"] by simp



section \<open>Properties of the camera\<close>

lemma norm_val_eqI:
  assumes "- pi32 < x - 2 * pi32 * of_int k" and "x - 2 * pi32 * of_int k \<le> pi32"
  shows "norm_val x = x - 2 * pi32 * of_int k"
proof -
  have p: "0 < 2 * pi32" by (simp add: pi32_def)
  have "\<lceil>(x - pi32) / (2 * pi32)\<rceil> = k"
  proof (rule ceiling_unique)
    have "(of_int k - 1) * (2 * pi32) < x - pi32"
      using assms(1) by (simp add: algebra_simps)
    then show "of_int k - 1 < (x - pi32) / (2 * pi32)"
      by (simp only: pos_less_divide_eq [OF p])
    have "x - pi32 \<le> of_int k * (2 * pi32)"
      using assms(2) by (simp add: algebra_simps)
    then show "(x - pi32) / (2 * pi32) \<le> of_int k"
      by (simp only: pos_divide_le_eq [OF p])
  qed
  then show ?thesis by (simp add: norm_val_def)
qed



lemma deg2rad_100: "deg2rad (fl 100) = Fin (14640883 / 8388608)"
proof -
  have "fl (100 * pi32) = Fin (10294371 / 32768)"
    using fl_eqI [of "100 * pi32" "- 15" 10294371] by (simp add: pi32_def)
  moreover have "fl (10294371 / 32768 / 180) = Fin (14640883 / 8388608)"
    using fl_eqI [of "10294371 / 32768 / 180" "- 23" 14640883] by simp
  ultimately show ?thesis
    by (simp add: deg2rad_def PI_def fl_small)
qed

lemma half_PI: "fdiv PI (Fin 2) = Fin (13176795 / 8388608)"
  "fdiv (fneg PI) (Fin 2) = Fin (- (13176795 / 8388608))"
  using fl_exact [of 13176795 "- 23"] fl_exact [of "- 13176795" "- 23"]
  by (simp_all add: PI_def pi32_def)

lemma Camera_0_value: "Camera_0 = \<lparr>azimuth = Fin 0, altitude = Fin 0, zoom = Fin 1\<rparr>"
  by (simp add: Camera_0_def std_clamp_def ZOOM_MIN_def ZOOM_MAX_def fl_small fl_zero fl_tenth)

text \<open>
  C1 does not hold of the code: \<^verbatim>\<open>rotate_up\<close> and \<^verbatim>\<open>rotate_down\<close> pass the new
  altitude through \<open>rad_norm\<close>, where the three-argument constructor clamps it. From the
  default camera, whose altitude is 0, a rotation by 100 degrees, up or down, stores the
  altitude \<open>- 14640883 / 2 ^ 23\<close> (minus 100 degrees, in radians). It is below
  \<open>- PI / 2\<close>, which is what the clamp of the constructor stores for it.
\<close>

theorem altitude_not_clamped:
  "altitude (rotate_up (fl 100) Camera_0) = Fin (- (14640883 / 8388608))
   \<and> altitude (rotate_down (fl 100) Camera_0) = Fin (- (14640883 / 8388608))
   \<and> flt (Fin (- (14640883 / 8388608))) (fdiv (fneg PI) (fl 2))
   \<and> std_clamp (Fin (- (14640883 / 8388608))) (fdiv (fneg PI) (fl 2)) (fdiv PI (fl 2))
       = fdiv (fneg PI) (fl 2)"
proof -
  have e: "fl (- (14640883 / 8388608)) = Fin (- (14640883 / 8388608))"
    using fl_exact [of "- 14640883" "- 23"] by simp
  have n: "norm_val (- (14640883 / 8388608)) = - (14640883 / 8388608)"
    using norm_val_eqI [of "- (14640883 / 8388608)" 0] by (simp add: pi32_def)
  have "rad_norm (fsub (Fin 0) (deg2rad (fl 100))) = Fin (- (14640883 / 8388608))"
    by (simp add: deg2rad_100 fsub_def e n rad_norm_def)
  then show ?thesis
    by (simp add: rotate_up_def rotate_down_def Camera_0_value fl_small half_PI std_clamp_def)
qed

text \<open>
  C2: \<^verbatim>\<open>rotate_up\<close> and \<^verbatim>\<open>rotate_down\<close> are the same function: for every camera
  and every degree amount they yield the same camera, so the keys for up and for down
  move the camera the same way.
\<close>

theorem rotate_up_eq_rotate_down:
  "rotate_up d c = rotate_down d c \<and> handle_control KEY_UP c = handle_control KEY_DOWN c"
  by (simp add: rotate_up_def rotate_down_def handle_control_def key_def KEY_UP_def KEY_DOWN_def
      KEY_LEFT_def KEY_RIGHT_def)

lemma ZOOM_values:
  "ZOOM_MIN = Fin (13421773 / 134217728)" "ZOOM_MAX = Fin 5" "ZOOM_STEP = Fin (13421773 / 134217728)"
  by (simp_all add: ZOOM_MIN_def ZOOM_MAX_def ZOOM_STEP_def fl_tenth fl_small)

lemma std_min_le: "a \<noteq> NaN \<Longrightarrow> b \<noteq> NaN \<Longrightarrow> fle (std_min a b) b"
  by (cases a; cases b) (simp_all add: std_min_def)

lemma std_max_ge: "a \<noteq> NaN \<Longrightarrow> b \<noteq> NaN \<Longrightarrow> fle b (std_max a b)"
  by (cases a; cases b) (simp_all add: std_max_def)

lemma fadd_lower:
  assumes "fl a = Fin a" and "fle (Fin a) z" and "fle (Fin 0) s"
  shows "fle (Fin a) (fadd z s)"
proof (cases z)
  case (Fin x)
  show ?thesis
  proof (cases s)
    case (Fin y)
    have "a \<le> x + y" using assms(2,3) \<open>z = Fin x\<close> Fin by simp
    then have "fle (fl a) (fl (x + y))" by (rule fl_mono)
    then show ?thesis using assms(1) \<open>z = Fin x\<close> Fin by simp
  qed (use assms \<open>z = Fin x\<close> in simp_all)
qed (use assms in \<open>cases s; simp\<close>)+

lemma fsub_upper:
  assumes "fl b = Fin b" and "fle z (Fin b)" and "fle (Fin 0) s"
  shows "fle (fsub z s) (Fin b)"
proof (cases z)
  case (Fin x)
  show ?thesis
  proof (cases s)
    case (Fin y)
    have "x - y \<le> b" using assms(2,3) \<open>z = Fin x\<close> Fin by simp
    then have "fle (fl (x - y)) (fl b)" by (rule fl_mono)
    then show ?thesis using assms(1) \<open>z = Fin x\<close> Fin by (simp add: fsub_def)
  qed (use assms \<open>z = Fin x\<close> in \<open>simp_all add: fsub_def\<close>)
qed (use assms in \<open>cases s; simp add: fsub_def\<close>)+

lemma std_min_ge: "fle l a \<Longrightarrow> fle l b \<Longrightarrow> fle l (std_min a b)"
  by (simp add: std_min_def)

lemma std_max_le: "fle a h \<Longrightarrow> fle b h \<Longrightarrow> fle (std_max a b) h"
  by (simp add: std_max_def)

text \<open>
  C3, as the code has it: \<^verbatim>\<open>zoom_in\<close> bounds the zoom from above only and
  \<^verbatim>\<open>zoom_out\<close> from below only, and neither bounds a not-a-number. For every camera
  and step, the zoom after \<^verbatim>\<open>zoom_in\<close> is at most \<open>ZOOM_MAX\<close> when the sum of zoom
  and step is a number or an infinity, and the zoom after \<^verbatim>\<open>zoom_out\<close> is at least
  \<open>ZOOM_MIN\<close> when the difference is; when the step is at least 0 and the zoom was at
  least \<open>ZOOM_MIN\<close> before \<^verbatim>\<open>zoom_in\<close>, it is so afterwards, and when the step is at
  least 0 and the zoom was at most \<open>ZOOM_MAX\<close> before \<^verbatim>\<open>zoom_out\<close>, it is so
  afterwards.
\<close>

theorem zoom_bounds:
  "(fadd (zoom c) s \<noteq> NaN \<longrightarrow> fle (zoom (zoom_in s c)) ZOOM_MAX)
   \<and> (fsub (zoom c) s \<noteq> NaN \<longrightarrow> fle ZOOM_MIN (zoom (zoom_out s c)))
   \<and> (fle (Fin 0) s \<and> fle ZOOM_MIN (zoom c) \<longrightarrow> fle ZOOM_MIN (zoom (zoom_in s c)))
   \<and> (fle (Fin 0) s \<and> fle (zoom c) ZOOM_MAX \<longrightarrow> fle (zoom (zoom_out s c)) ZOOM_MAX)"
proof (intro conjI impI)
  assume "fadd (zoom c) s \<noteq> NaN"
  then show "fle (zoom (zoom_in s c)) ZOOM_MAX"
    by (simp add: zoom_in_def std_min_le ZOOM_values)
next
  assume "fsub (zoom c) s \<noteq> NaN"
  then show "fle ZOOM_MIN (zoom (zoom_out s c))"
    by (simp add: zoom_out_def std_max_ge ZOOM_values)
next
  assume a: "fle (Fin 0) s \<and> fle ZOOM_MIN (zoom c)"
  have "fle ZOOM_MIN (fadd (zoom c) s)"
    unfolding ZOOM_values using a fl_tenth_again by (intro fadd_lower) (simp_all add: ZOOM_values)
  moreover have "fle ZOOM_MIN ZOOM_MAX" by (simp add: ZOOM_values)
  ultimately show "fle ZOOM_MIN (zoom (zoom_in s c))"
    by (simp add: zoom_in_def std_min_ge)
next
  assume a: "fle (Fin 0) s \<and> fle (zoom c) ZOOM_MAX"
  have "fle (fsub (zoom c) s) ZOOM_MAX"
    unfolding ZOOM_values using a fl_small by (intro fsub_upper) (simp_all add: ZOOM_values)
  moreover have "fle ZOOM_MIN ZOOM_MAX" by (simp add: ZOOM_values)
  ultimately show "fle (zoom (zoom_out s c)) ZOOM_MAX"
    by (simp add: zoom_out_def std_max_le)
qed

lemma fl_not_NaN: "fl x \<noteq> NaN"
  by (simp add: fl_def fl_pos_def)

theorem zoom_bounds_witness:
  "fle (zoom (zoom_in ZOOM_STEP Camera_0)) ZOOM_MAX
   \<and> fle ZOOM_MIN (zoom (zoom_out ZOOM_STEP Camera_0))
   \<and> fle ZOOM_MIN (zoom (zoom_in ZOOM_STEP Camera_0))
   \<and> fle (zoom (zoom_out ZOOM_STEP Camera_0)) ZOOM_MAX"
proof -
  have a: "fadd (zoom Camera_0) ZOOM_STEP \<noteq> NaN" "fsub (zoom Camera_0) ZOOM_STEP \<noteq> NaN"
    by (simp_all add: Camera_0_value ZOOM_values fsub_def fl_not_NaN)
  have s: "fle (Fin 0) ZOOM_STEP" by (simp add: ZOOM_values)
  have z: "fle ZOOM_MIN (zoom Camera_0)" "fle (zoom Camera_0) ZOOM_MAX"
    by (simp_all add: Camera_0_value ZOOM_values)
  show ?thesis
    using zoom_bounds [of Camera_0 ZOOM_STEP] a s z by simp
qed

text \<open>
  C3 fails as stated: from the default camera (zoom 1), \<^verbatim>\<open>zoom_in\<close> with step -10
  stores a zoom below \<open>ZOOM_MIN\<close> and \<^verbatim>\<open>zoom_out\<close> with step -10 one above
  \<open>ZOOM_MAX\<close>; from a camera whose zoom field is 100, \<^verbatim>\<open>zoom_out\<close> with the
  default step stays above \<open>ZOOM_MAX\<close>; and a step that is not a number leaves a zoom
  that is not a number.
\<close>

theorem zoom_one_sided_counterexample:
  "flt (zoom (zoom_in (fl (- 10)) Camera_0)) ZOOM_MIN
   \<and> flt ZOOM_MAX (zoom (zoom_out (fl (- 10)) Camera_0))
   \<and> flt ZOOM_MAX (zoom (zoom_out ZOOM_STEP \<lparr>azimuth = fl 0, altitude = fl 0, zoom = fl 100\<rparr>))
   \<and> zoom (zoom_in NaN Camera_0) = NaN
   \<and> zoom (zoom_out NaN Camera_0) = NaN"
proof -
  have m: "fl (- 10) = Fin (- 10)" "fl (- 9) = Fin (- 9)" "fl 11 = Fin 11"
    using fl_exact [of "- 10" 0] fl_exact [of "- 9" 0] fl_exact [of 11 0] by simp_all
  have h: "fl (13408351027 / 134217728) = Fin (13094093 / 131072)"
    using fl_eqI [of "13408351027 / 134217728" "- 17" 13094093] by simp
  show ?thesis
    by (simp add: zoom_in_def zoom_out_def Camera_0_value ZOOM_values std_min_def std_max_def
        fsub_def m h fl_small)
qed

lemma clamped_std_clamp:
  "v \<noteq> NaN \<Longrightarrow> a \<le> b \<Longrightarrow> clamped v (Fin a) (Fin b) (std_clamp v (Fin a) (Fin b))"
  by (cases v) (auto simp: clamped_def std_clamp_def)

text \<open>
  C5, for arguments that are numbers or infinities: the three-argument constructor
  stores \<open>rad_norm azimuth\<close>; when the altitude argument is not a not-a-number it
  stores the altitude clamped to the range from \<open>- PI / 2\<close> to \<open>PI / 2\<close>, and when the
  zoom argument is not a not-a-number it stores, as the one-argument constructor does,
  the zoom clamped to the range from \<open>ZOOM_MIN\<close> to \<open>ZOOM_MAX\<close>. The one-argument
  constructor stores azimuth 0 and altitude 0; the default constructor stores azimuth 0,
  altitude 0 and zoom 1, which is within the bounds.
\<close>

theorem constructors_clamp:
  "azimuth (Camera_3 az al z) = rad_norm az
   \<and> (al \<noteq> NaN \<longrightarrow>
        clamped al (fdiv (fneg PI) (fl 2)) (fdiv PI (fl 2)) (altitude (Camera_3 az al z)))
   \<and> (z \<noteq> NaN \<longrightarrow>
        clamped z ZOOM_MIN ZOOM_MAX (zoom (Camera_3 az al z))
        \<and> clamped z ZOOM_MIN ZOOM_MAX (zoom (Camera_1 z)))
   \<and> azimuth (Camera_1 z) = Fin 0 \<and> altitude (Camera_1 z) = Fin 0
   \<and> Camera_0 = \<lparr>azimuth = Fin 0, altitude = Fin 0, zoom = Fin 1\<rparr>
   \<and> fle ZOOM_MIN (zoom Camera_0) \<and> fle (zoom Camera_0) ZOOM_MAX"
proof -
  have "al \<noteq> NaN \<Longrightarrow>
      clamped al (fdiv (fneg PI) (fl 2)) (fdiv PI (fl 2)) (altitude (Camera_3 az al z))"
    by (simp add: Camera_3_def fl_small half_PI clamped_std_clamp)
  moreover have "z \<noteq> NaN \<Longrightarrow> clamped z ZOOM_MIN ZOOM_MAX (zoom (Camera_3 az al z))"
    by (simp add: Camera_3_def ZOOM_values clamped_std_clamp)
  moreover have "z \<noteq> NaN \<Longrightarrow> clamped z ZOOM_MIN ZOOM_MAX (zoom (Camera_1 z))"
    by (simp add: Camera_1_def ZOOM_values clamped_std_clamp)
  ultimately show ?thesis
    by (simp add: Camera_3_def Camera_1_def Camera_0_value ZOOM_values fl_zero)
qed

theorem constructors_clamp_witness:
  "altitude (Camera_3 (fl 0) (fl 100) (fl 100)) = fdiv PI (fl 2)
   \<and> zoom (Camera_3 (fl 0) (fl 100) (fl 100)) = ZOOM_MAX
   \<and> zoom (Camera_1 (fl 100)) = ZOOM_MAX"
proof -
  have n: "fl 100 \<noteq> NaN" by (rule fl_not_NaN)
  have a: "flt (fdiv PI (fl 2)) (fl 100)" by (simp add: fl_small half_PI)
  have z: "flt ZOOM_MAX (fl 100)" by (simp add: ZOOM_values fl_small)
  show ?thesis
    using constructors_clamp [of "fl 0" "fl 100" "fl 100"] n a z
    by (simp add: clamped_def)
qed

text \<open>
  C5 fails as stated: \<^verbatim>\<open>std::clamp\<close> returns a not-a-number unchanged, so the
  constructors store a zoom or an altitude that is not a number as it is, and it is
  within no bounds.
\<close>

theorem constructors_keep_NaN:
  "zoom (Camera_1 NaN) = NaN
   \<and> zoom (Camera_3 (fl 0) (fl 0) NaN) = NaN
   \<and> altitude (Camera_3 (fl 0) NaN (fl 1)) = NaN
   \<and> \<not> fle ZOOM_MIN (zoom (Camera_1 NaN))
   \<and> \<not> fle (zoom (Camera_1 NaN)) ZOOM_MAX
   \<and> \<not> fle (fdiv (fneg PI) (fl 2)) (altitude (Camera_3 (fl 0) NaN (fl 1)))"
  by (simp add: Camera_1_def Camera_3_def std_clamp_def ZOOM_values fl_small half_PI)






section \<open>Properties of the render loop\<close>











section \<open>Properties of the command line\<close>

lemma scan_reaches_loop:
  "scan_reaches sf s s' \<Longrightarrow> parse_loop sf (fst s) (snd s) = parse_loop sf (fst s') (snd s')"
  by (induction rule: scan_reaches.induct) simp_all

lemma main_exit:
  "parse_loop sf Args_default (tl argv) = Exit out status \<Longrightarrow> main sf load t argv = Exited out status"
  by (simp add: main_def parse_args_def)

lemma reach_stop:
  assumes "scan_reaches sf (Args_default, tl argv) (a, arg # rest)"
    and "parse_step sf a arg rest = Stop out status"
  shows "main sf load t argv = Exited out status"
proof -
  have "parse_loop sf Args_default (tl argv) = parse_loop sf a (arg # rest)"
    using scan_reaches_loop [OF assms(1)] by simp
  also have "\<dots> = Exit out status"
    using assms(2) by simp
  finally show ?thesis by (rule main_exit)
qed

lemma step_zoom_missing:
  "arg \<in> {''-z'', ''--zoom''} \<Longrightarrow> parse_step sf a arg [] = Stop [Stderr ''error: zoom needs value''] 1"
  by (auto simp: parse_step_def numeric_option_def)

lemma step_zoom_invalid:
  assumes "arg \<in> {''-z'', ''--zoom''}" and "sf v = None"
  shows "parse_step sf a arg (v # vs) = Stop [Stderr ''error: invalid zoom value''] 1"
proof -
  from assms(1) consider "arg = ''-z''" | "arg = ''--zoom''" by auto
  then show ?thesis
    by cases (simp_all add: parse_step_def numeric_option_def assms(2))
qed

lemma step_altitude_missing:
  "parse_step sf a ''--altitude'' [] = Stop [Stderr ''error: altitude needs value''] 1"
  by (simp add: parse_step_def numeric_option_def)

lemma step_altitude_invalid:
  "sf v = None \<Longrightarrow>
   parse_step sf a ''--altitude'' (v # vs) = Stop [Stderr ''error: invalid altitude value''] 1"
  by (simp add: parse_step_def numeric_option_def)

lemma step_azimuth_missing:
  "parse_step sf a ''--azimuth'' [] = Stop [Stderr ''error: azimuth needs value''] 1"
  by (simp add: parse_step_def numeric_option_def)

lemma step_azimuth_invalid:
  "sf v = None \<Longrightarrow>
   parse_step sf a ''--azimuth'' (v # vs) = Stop [Stderr ''error: invalid azimuth value''] 1"
  by (simp add: parse_step_def numeric_option_def)

lemma step_unknown:
  "dash arg \<Longrightarrow> \<not> known_option arg \<Longrightarrow>
   parse_step sf a arg rest = Stop [Stderr (''unknown option: '' @ arg), Stderr usage_hint] 1"
  by (simp add: parse_step_def known_option_def)

lemma scan_reaches_snoc:
  "scan_reaches sf s s' \<Longrightarrow> s' = (a, arg # rest) \<Longrightarrow> parse_step sf a arg rest = Continue a' n
   \<Longrightarrow> scan_reaches sf s (a', drop n rest)"
proof (induction arbitrary: a arg rest rule: scan_reaches.induct)
  case (here sf s)
  then show ?case
    using scan_reaches.step [of sf a arg rest a' n "(a', drop n rest)"]
    by (simp add: scan_reaches.here)
next
  case (step sf b arg' rest' b' m s')
  then show ?case
    using scan_reaches.step [of sf b arg' rest' b' m "(a', drop n rest)"] by simp
qed

lemma step_help: "arg \<in> {''-h'', ''--help''} \<Longrightarrow> parse_step sf a arg rest = Stop [PrintHelp] 0"
  by (auto simp: parse_step_def)

lemma step_version:
  "arg \<in> {''-v'', ''--version''} \<Longrightarrow> parse_step sf a arg rest = Stop [PrintVersion] 0"
  by (auto simp: parse_step_def)

lemma step_al_no_number:
  "sf v = None \<Longrightarrow>
   parse_step sf a ''-al'' (v # vs) = Continue (a\<lparr>animate_altitude := True\<rparr>) 0"
  by (simp add: parse_step_def)

lemma step_az_no_number:
  "sf v = None \<Longrightarrow>
   parse_step sf a ''-az'' (v # vs) = Continue (a\<lparr>animate_azimuth := True\<rparr>) 0"
  by (simp add: parse_step_def)

text \<open>
  C7, as the code has it: when the loop of \<^verbatim>\<open>parse_args\<close> comes to \<^verbatim>\<open>-z\<close>,
  \<^verbatim>\<open>--zoom\<close>, \<^verbatim>\<open>--altitude\<close> or \<^verbatim>\<open>--azimuth\<close> and the value is missing or
  rejected by \<^verbatim>\<open>safe_stof\<close>, the process writes one line naming the error to standard
  error, without the usage hint, and exits with status 1; when it comes to an argument
  that starts with a dash and is no option, it writes the unknown option and the usage
  hint and exits with status 1. In each case the process ends before
  \<^verbatim>\<open>init_ncurses\<close> and the render loop. When it comes to \<^verbatim>\<open>-al\<close> or \<^verbatim>\<open>-az\<close>
  followed by an argument that \<^verbatim>\<open>safe_stof\<close> rejects, it only sets the animation flag
  and goes on with that argument as the next one to parse. When it comes to \<^verbatim>\<open>-h\<close>,
  \<^verbatim>\<open>--help\<close>, \<^verbatim>\<open>-v\<close> or \<^verbatim>\<open>--version\<close>, the process prints the help or the
  version and exits with status 0, whatever follows.
\<close>

theorem option_errors_exit_1:
  assumes "scan_reaches sf (Args_default, tl argv) (a, arg # rest)"
  shows "(arg \<in> {''-z'', ''--zoom''} \<and> rest = []
            \<longrightarrow> main sf load t argv = Exited [Stderr ''error: zoom needs value''] 1)
       \<and> (arg \<in> {''-z'', ''--zoom''} \<and> rest \<noteq> [] \<and> sf (hd rest) = None
            \<longrightarrow> main sf load t argv = Exited [Stderr ''error: invalid zoom value''] 1)
       \<and> (arg = ''--altitude'' \<and> rest = []
            \<longrightarrow> main sf load t argv = Exited [Stderr ''error: altitude needs value''] 1)
       \<and> (arg = ''--altitude'' \<and> rest \<noteq> [] \<and> sf (hd rest) = None
            \<longrightarrow> main sf load t argv = Exited [Stderr ''error: invalid altitude value''] 1)
       \<and> (arg = ''--azimuth'' \<and> rest = []
            \<longrightarrow> main sf load t argv = Exited [Stderr ''error: azimuth needs value''] 1)
       \<and> (arg = ''--azimuth'' \<and> rest \<noteq> [] \<and> sf (hd rest) = None
            \<longrightarrow> main sf load t argv = Exited [Stderr ''error: invalid azimuth value''] 1)
       \<and> (dash arg \<and> \<not> known_option arg
            \<longrightarrow> main sf load t argv
                = Exited [Stderr (''unknown option: '' @ arg), Stderr usage_hint] 1)
       \<and> (arg = ''-al'' \<and> rest \<noteq> [] \<and> sf (hd rest) = None
            \<longrightarrow> scan_reaches sf (Args_default, tl argv) (a\<lparr>animate_altitude := True\<rparr>, rest))
       \<and> (arg = ''-az'' \<and> rest \<noteq> [] \<and> sf (hd rest) = None
            \<longrightarrow> scan_reaches sf (Args_default, tl argv) (a\<lparr>animate_azimuth := True\<rparr>, rest))
       \<and> (arg \<in> {''-h'', ''--help''} \<longrightarrow> main sf load t argv = Exited [PrintHelp] 0)
       \<and> (arg \<in> {''-v'', ''--version''} \<longrightarrow> main sf load t argv = Exited [PrintVersion] 0)"
proof -
  note stop = reach_stop [OF assms]
  have z1: "main sf load t argv = Exited [Stderr ''error: zoom needs value''] 1"
    if h: "arg \<in> {''-z'', ''--zoom''}" "rest = []"
    using h(2) step_zoom_missing [OF h(1)] by (intro stop) simp
  have z2: "main sf load t argv = Exited [Stderr ''error: invalid zoom value''] 1"
    if h: "arg \<in> {''-z'', ''--zoom''}" "rest \<noteq> []" "sf (hd rest) = None"
  proof -
    obtain v vs where "rest = v # vs" using h(2) by (cases rest) simp_all
    then show ?thesis
      using h(3) step_zoom_invalid [OF h(1)] by (intro stop) simp
  qed
  have al1: "main sf load t argv = Exited [Stderr ''error: altitude needs value''] 1"
    if h: "arg = ''--altitude''" "rest = []"
    using h step_altitude_missing by (intro stop) simp
  have al2: "main sf load t argv = Exited [Stderr ''error: invalid altitude value''] 1"
    if h: "arg = ''--altitude''" "rest \<noteq> []" "sf (hd rest) = None"
  proof -
    obtain v vs where "rest = v # vs" using h(2) by (cases rest) simp_all
    then show ?thesis
      using h(1,3) step_altitude_invalid by (intro stop) simp
  qed
  have az1: "main sf load t argv = Exited [Stderr ''error: azimuth needs value''] 1"
    if h: "arg = ''--azimuth''" "rest = []"
    using h step_azimuth_missing by (intro stop) simp
  have az2: "main sf load t argv = Exited [Stderr ''error: invalid azimuth value''] 1"
    if h: "arg = ''--azimuth''" "rest \<noteq> []" "sf (hd rest) = None"
  proof -
    obtain v vs where "rest = v # vs" using h(2) by (cases rest) simp_all
    then show ?thesis
      using h(1,3) step_azimuth_invalid by (intro stop) simp
  qed
  have un: "main sf load t argv = Exited [Stderr (''unknown option: '' @ arg), Stderr usage_hint] 1"
    if h: "dash arg" "\<not> known_option arg"
    using step_unknown [OF h] by (intro stop)
  have an1: "scan_reaches sf (Args_default, tl argv) (a\<lparr>animate_altitude := True\<rparr>, rest)"
    if h: "arg = ''-al''" "rest \<noteq> []" "sf (hd rest) = None"
  proof -
    obtain v vs where r: "rest = v # vs" using h(2) by (cases rest) simp_all
    then have "parse_step sf a arg rest = Continue (a\<lparr>animate_altitude := True\<rparr>) 0"
      using h(1,3) step_al_no_number by simp
    from scan_reaches_snoc [OF assms refl this] show ?thesis by simp
  qed
  have an2: "scan_reaches sf (Args_default, tl argv) (a\<lparr>animate_azimuth := True\<rparr>, rest)"
    if h: "arg = ''-az''" "rest \<noteq> []" "sf (hd rest) = None"
  proof -
    obtain v vs where r: "rest = v # vs" using h(2) by (cases rest) simp_all
    then have "parse_step sf a arg rest = Continue (a\<lparr>animate_azimuth := True\<rparr>) 0"
      using h(1,3) step_az_no_number by simp
    from scan_reaches_snoc [OF assms refl this] show ?thesis by simp
  qed
  have hp: "main sf load t argv = Exited [PrintHelp] 0" if h: "arg \<in> {''-h'', ''--help''}"
    using step_help [OF h] by (intro stop)
  have vr: "main sf load t argv = Exited [PrintVersion] 0" if h: "arg \<in> {''-v'', ''--version''}"
    using step_version [OF h] by (intro stop)
  show ?thesis
    by (intro conjI impI; (elim conjE)?;
        (rule z1 z2 al1 al2 az1 az2 un an1 an2 hp vr; assumption))
qed

lemma reach_light:
  "scan_reaches sf (a, ''-l'' # xs) (a\<lparr>static_light := True\<rparr>, xs)"
  by (rule scan_reaches.step [where n = 0 and a' = "a\<lparr>static_light := True\<rparr>"])
     (simp_all add: parse_step_def scan_reaches.here)

theorem option_errors_exit_1_witness:
  "main stof_sample load_sample term_sample [''objcurses'', ''-l'', ''--bogus'']
     = Exited [Stderr ''unknown option: --bogus'', Stderr usage_hint] 1
   \<and> main stof_sample load_sample term_sample [''objcurses'', ''--zoom'', ''abc'', ''cube.obj'']
     = Exited [Stderr ''error: invalid zoom value''] 1
   \<and> scan_reaches stof_sample (Args_default, [''-al'', ''abc''])
       (Args_default\<lparr>animate_altitude := True\<rparr>, [''abc''])
   \<and> main stof_sample load_sample term_sample [''objcurses'', ''-l'', ''--help'', ''--bogus'']
     = Exited [PrintHelp] 0"
proof -
  have r1: "scan_reaches stof_sample (Args_default, tl [''objcurses'', ''-l'', ''--bogus''])
              (Args_default\<lparr>static_light := True\<rparr>, ''--bogus'' # [])"
    using reach_light [of stof_sample Args_default "[''--bogus'']"] by simp
  have r2: "scan_reaches stof_sample (Args_default, tl [''objcurses'', ''--zoom'', ''abc'', ''cube.obj''])
              (Args_default, ''--zoom'' # [''abc'', ''cube.obj''])"
    by (simp add: scan_reaches.here)
  have r3: "scan_reaches stof_sample (Args_default, tl [''objcurses'', ''-al'', ''abc''])
              (Args_default, ''-al'' # [''abc''])"
    by (simp add: scan_reaches.here)
  have r4: "scan_reaches stof_sample (Args_default, tl [''objcurses'', ''-l'', ''--help'', ''--bogus''])
              (Args_default\<lparr>static_light := True\<rparr>, ''--help'' # [''--bogus''])"
    using reach_light [of stof_sample Args_default "[''--help'', ''--bogus'']"] by simp
  have d: "dash ''--bogus''" "\<not> known_option ''--bogus''"
    by (simp_all add: dash_def known_option_def)
  have n: "stof_sample (hd [''abc'', ''cube.obj'']) = None" "stof_sample (hd [''abc'']) = None"
    by (simp_all add: stof_sample_def)
  show ?thesis
    using option_errors_exit_1 [OF r1, of load_sample term_sample]
      option_errors_exit_1 [OF r2, of load_sample term_sample]
      option_errors_exit_1 [OF r3, of load_sample term_sample]
      option_errors_exit_1 [OF r4, of load_sample term_sample] d n
    by simp
qed

text \<open>
  C7 fails as stated: a value after \<^verbatim>\<open>-al\<close> that is no number is not an error (it is
  read as the input file, and the program goes on to the render loop); an invalid zoom
  value is reported without the usage hint; and an unknown flag after \<^verbatim>\<open>--help\<close> is
  never read, the process exits with status 0.
\<close>

theorem option_errors_counterexample:
  "main stof_sample load_sample term_sample [''objcurses'', ''-al'', ''abc'']
     = Render_loop [InitNcurses]
         (initial_camera (Args_default\<lparr>animate_altitude := True, input_file := ''abc''\<rparr>))
   \<and> main stof_sample load_sample term_sample [''objcurses'', ''-z'', ''abc'', ''cube.obj'']
     = Exited [Stderr ''error: invalid zoom value''] 1
   \<and> main stof_sample load_sample term_sample [''objcurses'', ''--help'', ''--bogus'']
     = Exited [PrintHelp] 0"
  by (simp add: main_def parse_args_def parse_step_def numeric_option_def stof_sample_def
      load_sample_def dash_def Args_default_def)

section \<open>Properties of start-up\<close>

lemma main_Render_loop:
  assumes "main sf load t argv = Render_loop ev cam"
  shows "\<exists>a said obj. parse_args sf argv = Return a
           \<and> load (input_file a) (color_support a) = (said, Some obj)
           \<and> cam = initial_camera a"
  using assms
  by (auto simp: main_def split: outcome.splits prod.splits option.splits)

lemma reach_end_no_file:
  assumes "scan_reaches sf (Args_default, tl argv) (a, [])" and "input_file a = []"
  shows "parse_args sf argv = Exit [Stderr ''error: no input file'', Stderr usage_hint] 1"
proof -
  have "parse_loop sf Args_default (tl argv) = parse_loop sf a []"
    using scan_reaches_loop [OF assms(1)] by simp
  then show ?thesis
    by (simp add: parse_args_def assms(2))
qed

text \<open>
  C8, as the code has it: when the loop of \<^verbatim>\<open>parse_args\<close> comes to the end of the
  command line with no input file, the process writes \<^verbatim>\<open>error: no input file\<close> and the
  usage hint to standard error and exits with status 1; when the loader fails for the
  parsed path, \<^verbatim>\<open>main\<close> returns 1, and what has been printed is what the loader
  printed; and whenever the render loop is entered, there is an input file and the
  loader succeeded on it.
\<close>

theorem startup_failures:
  "(scan_reaches sf (Args_default, tl argv) (a, []) \<and> input_file a = []
      \<longrightarrow> main sf load t argv = Exited [Stderr ''error: no input file'', Stderr usage_hint] 1)
   \<and> (parse_args sf argv = Return a \<and> load (input_file a) (color_support a) = (said, None)
      \<longrightarrow> main sf load t argv = Exited (map Loader_says said) 1)
   \<and> (main sf load t argv = Render_loop ev cam
      \<longrightarrow> (\<exists>b lines obj. parse_args sf argv = Return b \<and> input_file b \<noteq> []
             \<and> load (input_file b) (color_support b) = (lines, Some obj)))"
proof (intro conjI impI)
  assume "scan_reaches sf (Args_default, tl argv) (a, []) \<and> input_file a = []"
  then have "parse_args sf argv = Exit [Stderr ''error: no input file'', Stderr usage_hint] 1"
    using reach_end_no_file by blast
  then show "main sf load t argv = Exited [Stderr ''error: no input file'', Stderr usage_hint] 1"
    by (simp add: main_def)
next
  assume "parse_args sf argv = Return a \<and> load (input_file a) (color_support a) = (said, None)"
  then show "main sf load t argv = Exited (map Loader_says said) 1"
    by (simp add: main_def)
next
  assume r: "main sf load t argv = Render_loop ev cam"
  from main_Render_loop [OF r] obtain b lines obj where b: "parse_args sf argv = Return b"
    and l: "load (input_file b) (color_support b) = (lines, Some obj)" by blast
  from b have "input_file b \<noteq> []"
    by (auto simp: parse_args_def split: outcome.splits if_splits)
  with b l show "\<exists>b lines obj. parse_args sf argv = Return b \<and> input_file b \<noteq> []
             \<and> load (input_file b) (color_support b) = (lines, Some obj)"
    by blast
qed

theorem startup_failures_witness:
  "main stof_sample load_sample term_sample [''objcurses'', ''-l'']
     = Exited [Stderr ''error: no input file'', Stderr usage_hint] 1
   \<and> main stof_sample load_failing term_sample [''objcurses'', ''cube.obj'']
     = Exited [Loader_says ''error: cannot open file''] 1
   \<and> (\<exists>b lines obj. parse_args stof_sample [''objcurses'', ''cube.obj''] = Return b
         \<and> input_file b \<noteq> []
         \<and> load_sample (input_file b) (color_support b) = (lines, Some obj))"
proof -
  have r: "scan_reaches stof_sample (Args_default, tl [''objcurses'', ''-l''])
             (Args_default\<lparr>static_light := True\<rparr>, [])"
    using reach_light [of stof_sample Args_default "[]"] by simp
  have e: "input_file (Args_default\<lparr>static_light := True\<rparr>) = []"
    by (simp add: Args_default_def)
  have p: "parse_args stof_sample [''objcurses'', ''cube.obj'']
             = Return (Args_default\<lparr>input_file := ''cube.obj''\<rparr>)"
    by (simp add: parse_args_def parse_step_def dash_def Args_default_def)
  have f: "load_failing (input_file (Args_default\<lparr>input_file := ''cube.obj''\<rparr>))
             (color_support (Args_default\<lparr>input_file := ''cube.obj''\<rparr>))
           = ([''error: cannot open file''], None)"
    by (simp add: load_failing_def)
  have m: "main stof_sample load_sample term_sample [''objcurses'', ''cube.obj'']
             = Render_loop [InitNcurses] (initial_camera (Args_default\<lparr>input_file := ''cube.obj''\<rparr>))"
    by (simp add: main_def p load_sample_def Args_default_def)
  show ?thesis
    using startup_failures [where sf = stof_sample and argv = "[''objcurses'', ''-l'']"
        and a = "Args_default\<lparr>static_light := True\<rparr>" and load = load_sample
        and t = term_sample]
      startup_failures [where sf = stof_sample and argv = "[''objcurses'', ''cube.obj'']"
        and a = "Args_default\<lparr>input_file := ''cube.obj''\<rparr>" and load = load_failing
        and said = "[''error: cannot open file'']" and t = term_sample]
      startup_failures [where sf = stof_sample and argv = "[''objcurses'', ''cube.obj'']"
        and load = load_sample and t = term_sample and ev = "[InitNcurses]"
        and cam = "initial_camera (Args_default\<lparr>input_file := ''cube.obj''\<rparr>)"]
      r e p f m
    by simp
qed

text \<open>
  C8 fails as stated: \<^verbatim>\<open>--help\<close> and \<^verbatim>\<open>-v\<close> alone supply no input file, and the
  process exits with status 0.
\<close>

theorem no_input_file_counterexample:
  "main stof_sample load_sample term_sample [''objcurses'', ''--help''] = Exited [PrintHelp] 0
   \<and> main stof_sample load_sample term_sample [''objcurses'', ''-v''] = Exited [PrintVersion] 0"
  by (simp add: main_def parse_args_def parse_step_def)

lemma deg2rad_180: "deg2rad (fl 180) = Fin (13176795 / 4194304)"
proof -
  have "fl (180 * pi32) = Fin (4632467 / 8192)"
    using fl_eqI [of "180 * pi32" "- 14" 9264934] by (simp add: pi32_def)
  moreover have "fl (4632467 / 1474560) = Fin (13176795 / 4194304)"
    using fl_eqI [of "4632467 / 1474560" "- 22" 13176795] by simp
  ultimately show ?thesis
    by (simp add: deg2rad_def PI_def fl_small)
qed

lemma deg2rad_720: "deg2rad (fl 720) = Fin (13176795 / 1048576)"
proof -
  have "fl (720 * pi32) = Fin (4632467 / 2048)"
    using fl_eqI [of "720 * pi32" "- 12" 9264934] by (simp add: pi32_def)
  moreover have "fl (4632467 / 368640) = Fin (13176795 / 1048576)"
    using fl_eqI [of "4632467 / 368640" "- 20" 13176795] by simp
  ultimately show ?thesis
    by (simp add: deg2rad_def PI_def fl_small)
qed

text \<open>
  C4 does not hold of the code: \<^verbatim>\<open>main\<close> builds the camera with the one-argument
  constructor, which clamps the zoom, and then assigns the altitude and the azimuth to
  the fields. With \<^verbatim>\<open>--altitude 180 --azimuth 720 --zoom 2\<close> the render loop starts
  with the altitude \<open>PI\<close>, above \<open>PI / 2\<close>, and the azimuth \<open>4 * PI\<close>, above \<open>PI\<close>,
  where the three-argument constructor stores the altitude \<open>PI / 2\<close> and the azimuth 0
  for the same values. A zoom that is not a number is not clamped either.
\<close>

theorem initial_camera_not_clamped:
  "main stof_sample load_sample term_sample
      [''objcurses'', ''--altitude'', ''180'', ''--azimuth'', ''720'', ''--zoom'', ''2'', ''cube.obj'']
   = Render_loop [InitNcurses]
       \<lparr>azimuth = Fin (13176795 / 1048576), altitude = Fin (13176795 / 4194304), zoom = Fin 2\<rparr>
   \<and> flt (fdiv PI (fl 2)) (Fin (13176795 / 4194304))
   \<and> flt PI (Fin (13176795 / 1048576))
   \<and> Camera_3 (deg2rad (fl 720)) (deg2rad (fl 180)) (fl 2)
       = \<lparr>azimuth = Fin 0, altitude = fdiv PI (fl 2), zoom = Fin 2\<rparr>
   \<and> zoom (initial_camera (Args_default\<lparr>args_zoom := NaN\<rparr>)) = NaN"
proof -
  have n: "rad_norm (Fin (13176795 / 1048576)) = Fin 0"
    using norm_val_eqI [of "13176795 / 1048576" 2] by (simp add: rad_norm_def pi32_def fl_zero)
  have d: "deg2rad (fl 720) = Fin (13176795 / 1048576)"
    "deg2rad (fl 180) = Fin (13176795 / 4194304)"
    by (simp_all only: deg2rad_180 deg2rad_720)
  have h: "fdiv PI (fl 2) = Fin (13176795 / 8388608)"
    "fdiv (fneg PI) (fl 2) = Fin (- (13176795 / 8388608))"
    by (simp_all add: fl_small half_PI)
  have z: "std_clamp (fl 2) ZOOM_MIN ZOOM_MAX = Fin 2"
    by (simp add: std_clamp_def ZOOM_values fl_small)
  have m: "main stof_sample load_sample term_sample
      [''objcurses'', ''--altitude'', ''180'', ''--azimuth'', ''720'', ''--zoom'', ''2'', ''cube.obj'']
   = Render_loop [InitNcurses]
       \<lparr>azimuth = deg2rad (fl 720), altitude = deg2rad (fl 180),
        zoom = std_clamp (fl 2) ZOOM_MIN ZOOM_MAX\<rparr>"
    by (simp add: main_def parse_args_def parse_step_def numeric_option_def stof_sample_def
      load_sample_def dash_def Args_default_def initial_camera_def Camera_1_def)
  have p: "flt PI (Fin (13176795 / 1048576))"
    by (simp add: PI_def pi32_def)
  have c: "std_clamp (Fin (13176795 / 4194304)) (Fin (- (13176795 / 8388608)))
      (Fin (13176795 / 8388608)) = Fin (13176795 / 8388608)"
    by (simp add: std_clamp_def)
  have q: "zoom (initial_camera (Args_default\<lparr>args_zoom := NaN\<rparr>)) = NaN"
    by (simp add: initial_camera_def Camera_1_def std_clamp_def ZOOM_values)
  show ?thesis
    unfolding m Camera_3_def d h n z c q using p by simp
qed

section \<open>Properties of the color pairs\<close>

lemma registered_pairs_append:
  "registered_pairs (xs @ ys) = registered_pairs xs @ registered_pairs ys"
  by (induction xs rule: registered_pairs.induct) simp_all

lemma int_of_size_t_small: "n < 2 ^ 31 \<Longrightarrow> int_of_size_t n = int n"
proof -
  assume "n < 2 ^ 31"
  then have "int n < 2 ^ 31" by (metis of_nat_less_iff of_nat_numeral of_nat_power)
  then have "(int n + 2 ^ 31) mod 2 ^ 32 = int n + 2 ^ 31"
    by (intro mod_pos_pos_trivial) simp_all
  then show ?thesis by (simp add: int_of_size_t_def)
qed

lemma size_t_of_int_small: "0 \<le> v \<Longrightarrow> v < 2 ^ 31 \<Longrightarrow> size_t_of_int v = nat v"
proof -
  assume "0 \<le> v" "v < 2 ^ 31"
  then have "v mod 2 ^ 64 = v"
    by (intro mod_pos_pos_trivial) simp_all
  then show ?thesis by (simp add: size_t_of_int_def)
qed

lemma short_of_int_small: "- (2 ^ 15) \<le> v \<Longrightarrow> v < 2 ^ 15 \<Longrightarrow> short_of_int v = v"
proof -
  assume "- (2 ^ 15) \<le> v" "v < 2 ^ 15"
  then have "(v + 2 ^ 15) mod 2 ^ 16 = v + 2 ^ 15"
    by (intro mod_pos_pos_trivial) simp_all
  then show ?thesis by (simp add: short_of_int_def)
qed

lemma registered_material_pairs:
  "limit < 2 ^ 31 \<Longrightarrow>
   registered_pairs (init_material_pairs ccc mats bg limit i)
     = map (\<lambda>j. (short_of_int (int j + 1), short_of_int (int j + 1), bg)) [i..<limit]"
proof (induction ccc mats bg limit i rule: init_material_pairs.induct)
  case (1 ccc mats bg limit i)
  show ?case
  proof (cases "i < limit")
    case True
    then have "i < 2 ^ 31" using "1.prems" by simp
    then have c: "int_of_size_t i = int i" by (rule int_of_size_t_small)
    have u: "[i..<limit] = i # [Suc i..<limit]" using True by (rule upt_conv_Cons)
    show ?thesis
      using True "1.IH" [OF True refl refl "1.prems"]
      by (subst init_material_pairs.simps) (simp add: registered_pairs_append c u Let_def)
  next
    case False
    then show ?thesis
      by (subst init_material_pairs.simps) simp
  qed
qed

lemma init_colors_pairs:
  assumes "has_colors t" and "can_change_color t" and "length mats < 2 ^ 31"
    and "limit = min (length mats) (size_t_of_int (COLOR_PAIRS t - 2))"
  shows "registered_pairs (fst (init_colors t mats th))
           = map (\<lambda>j. (short_of_int (int j + 1), short_of_int (int j + 1), theme_bg th)) [0 ..< limit]
             @ (if int limit + 1 < COLOR_PAIRS t
                then [(short_of_int (int limit + 1), theme_hud th, theme_bg th)] else [])"
proof -
  have lim: "limit < 2 ^ 31" using assms(3,4) by simp
  have c: "int_of_size_t limit = int limit"
    using lim by (rule int_of_size_t_small)
  have "registered_pairs (fst (init_colors t mats th))
          = registered_pairs (init_material_pairs True mats (theme_bg th) limit 0)
            @ (if int limit + 1 < COLOR_PAIRS t
               then [(short_of_int (int limit + 1), theme_hud th, theme_bg th)] else [])"
    using assms(1,2)
    by (simp add: init_colors_def Let_def c assms(4) [symmetric] registered_pairs_append)
  then show ?thesis
    using registered_material_pairs [OF lim] by simp
qed

lemma color_pairs_in_range:
  assumes "2 \<le> COLOR_PAIRS t" and "COLOR_PAIRS t \<le> 2 ^ 15" and "(p, f, b) \<in> set (registered_pairs (fst (init_colors t mats th)))"
  shows "1 \<le> p \<and> p < COLOR_PAIRS t"
proof (cases "has_colors t \<and> can_change_color t")
  case True
  define limit where "limit = min (length mats) (size_t_of_int (COLOR_PAIRS t - 2))"
  have s: "size_t_of_int (COLOR_PAIRS t - 2) = nat (COLOR_PAIRS t - 2)"
    using assms(1,2) by (intro size_t_of_int_small) simp_all
  have le: "int limit \<le> COLOR_PAIRS t - 2"
    using assms(1) by (simp add: limit_def s)
  have lim: "limit < 2 ^ 31"
  proof -
    have "int limit < 2 ^ 31" using le assms(2) by simp
    then show ?thesis by (metis of_nat_less_iff of_nat_numeral of_nat_power)
  qed
  have c: "int_of_size_t limit = int limit"
    using lim by (rule int_of_size_t_small)
  have eq: "registered_pairs (fst (init_colors t mats th))
          = registered_pairs (init_material_pairs True mats (theme_bg th) limit 0)
            @ [(short_of_int (int limit + 1), theme_hud th, theme_bg th)]"
    using True le
    by (simp add: init_colors_def Let_def c limit_def [symmetric] registered_pairs_append)
  have sm: "short_of_int (int j + 1) = int j + 1" if "j \<le> limit" for j
  proof -
    have "int j + 1 < 2 ^ 15" using that le assms(2) by simp
    then show ?thesis by (intro short_of_int_small) simp_all
  qed
  have "p \<in> {short_of_int (int j + 1) | j. j \<le> limit}"
    using assms(3) unfolding eq registered_material_pairs [OF lim] by auto
  then obtain j where j: "j \<le> limit" "p = int j + 1" using sm by auto
  then show ?thesis using le by simp
next
  case False
  then have "fst (init_colors t mats th) = []"
    by (auto simp: init_colors_def)
  with assms(3) show ?thesis by simp
qed

lemma channel_rounds_first: "channel (fl (5 / 1000)) = 5"
proof -
  have a: "fl (1 / 200) = Fin (5368709 / 1073741824)"
    using fl_eqI [of "1 / 200" "- 31" 10737418] by simp
  have b: "fl (671088625 / 134217728) = Fin 5"
    using fl_eqI [of "671088625 / 134217728" "- 21" 10485760] by simp
  show ?thesis
    by (simp add: channel_def a b std_clamp_def fl_small fl_zero short_of_float_def
        short_of_int_def)
qed

text \<open>
  C10 does not hold of the code. On a terminal with \<open>COLOR_PAIRS = 1\<close> the value
  \<open>COLOR_PAIRS - 2\<close> is negative and its conversion to \<^verbatim>\<open>size_t\<close> is huge: with two
  materials \<^verbatim>\<open>init_colors\<close> registers the pairs 1 and 2, both at or above the bound.
  On a terminal with \<open>COLOR_PAIRS = 65536\<close> and 32768 materials the pair 32768 reaches
  \<^verbatim>\<open>init_pair\<close>, which takes a \<^verbatim>\<open>short\<close>, as -32768, and the HUD pair 32769 as
  -32767.
\<close>

theorem color_pairs_beyond_bound:
  "COLOR_PAIRS term_one = 1
   \<and> registered_pairs (fst (init_colors term_one [red, red] Dark))
       = [(1, 1, COLOR_BLACK), (2, 2, COLOR_BLACK)]
   \<and> COLOR_PAIRS term_wide = 65536
   \<and> (- 32768, - 32768, COLOR_BLACK)
       \<in> set (registered_pairs (fst (init_colors term_wide (replicate 32768 red) Dark)))
   \<and> last (registered_pairs (fst (init_colors term_wide (replicate 32768 red) Dark)))
       = (- 32767, COLOR_WHITE, COLOR_BLACK)"
proof -
  have l1: "2 = min (length [red, red]) (size_t_of_int (COLOR_PAIRS term_one - 2))"
    by (simp add: term_one_def size_t_of_int_def)
  have u: "[0..<2] = [0, Suc 0]" by (simp add: upt_rec)
  have p1: "registered_pairs (fst (init_colors term_one [red, red] Dark))
       = [(1, 1, COLOR_BLACK), (2, 2, COLOR_BLACK)]"
    using init_colors_pairs [OF _ _ _ l1, of Dark]
    by (simp add: term_one_def u short_of_int_def theme_bg_def)
  have l2: "32768 = min (length (replicate 32768 red)) (size_t_of_int (COLOR_PAIRS term_wide - 2))"
    by (simp add: term_wide_def size_t_of_int_def)
  have p2: "registered_pairs (fst (init_colors term_wide (replicate 32768 red) Dark))
       = map (\<lambda>j. (short_of_int (int j + 1), short_of_int (int j + 1), COLOR_BLACK)) [0 ..< 32768]
         @ [(- 32767, COLOR_WHITE, COLOR_BLACK)]"
    using init_colors_pairs [OF _ _ _ l2, of Dark]
    by (simp add: term_wide_def short_of_int_def theme_bg_def theme_hud_def)
  have "\<exists>j \<in> set [0 ..< 32768 :: nat]. (- 32768, - 32768, COLOR_BLACK)
      = (short_of_int (int j + 1), short_of_int (int j + 1), COLOR_BLACK)"
    by (rule bexI [of _ 32767]) (simp_all add: short_of_int_def)
  then have "(- 32768, - 32768, COLOR_BLACK)
       \<in> set (map (\<lambda>j. (short_of_int (int j + 1), short_of_int (int j + 1), COLOR_BLACK)) [0 ..< 32768])"
    by (simp only: set_map image_iff)
  then show ?thesis
    unfolding p1 p2 by (simp add: term_one_def term_wide_def)
qed

theorem color_pairs_beyond_bound_witness:
  "\<exists>p f b. (p, f, b) \<in> set (registered_pairs (fst (init_colors term_one [red, red] Dark)))
      \<and> COLOR_PAIRS term_one \<le> p"
proof -
  have "(1, 1, COLOR_BLACK) \<in> set (registered_pairs (fst (init_colors term_one [red, red] Dark)))"
    using color_pairs_beyond_bound [THEN conjunct2, THEN conjunct1] by simp
  moreover have "COLOR_PAIRS term_one \<le> 1"
    using color_pairs_beyond_bound [THEN conjunct1] by simp
  ultimately show ?thesis by blast
qed

end
